theory Spec2Isabelle
  imports Main
begin

section \<open>splitCSV\<close>

text \<open>
  The source (marketdata-client.cpp, lines 20-25):
  \<^verbatim>\<open>
  static std::vector<std::string> splitCSV(const std::string& s) {
    std::vector<std::string> out; std::string cur;
    for (char c : s) { if (c==',') { if(!cur.empty()) out.push_back(cur); cur.clear(); }
                       else cur.push_back(c); }
    if (!cur.empty()) out.push_back(cur);
    return out;
  }
  \<close>
  The range-for is a recursion over the characters that threads the two locals
  \<open>out\<close> and \<open>cur\<close>; \<open>push_back\<close> appends at the end.
\<close>

fun splitCSV_loop :: "string \<Rightarrow> string list \<Rightarrow> string \<Rightarrow> string list \<times> string" where
  "splitCSV_loop [] out cur = (out, cur)"
| "splitCSV_loop (c # s) out cur =
     (if c = CHR '','' then splitCSV_loop s (if cur \<noteq> [] then out @ [cur] else out) []
      else splitCSV_loop s out (cur @ [c]))"

definition splitCSV :: "string \<Rightarrow> string list" where
  "splitCSV s =
     (case splitCSV_loop s [] [] of (out, cur) \<Rightarrow> if cur \<noteq> [] then out @ [cur] else out)"

text \<open>
  The specification's side, written without reference to the loop: \<open>comma_fields s\<close> is the
  decomposition of \<open>s\<close> at every comma, empty pieces included (the maximal comma-free
  substrings of \<open>s\<close>), and \<open>join_commas\<close> puts such pieces together again.
\<close>

fun comma_fields :: "string \<Rightarrow> string list" where
  "comma_fields [] = [[]]"
| "comma_fields (c # s) =
     (if c = CHR '','' then [] # comma_fields s
      else (c # hd (comma_fields s)) # tl (comma_fields s))"

fun join_commas :: "string list \<Rightarrow> string" where
  "join_commas [] = []"
| "join_commas [f] = f"
| "join_commas (f # g # fs) = f @ CHR '','' # join_commas (g # fs)"

definition nonempty_fields :: "string \<Rightarrow> string list" where
  "nonempty_fields s = filter (\<lambda>f. f \<noteq> []) (comma_fields s)"


section \<open>Messages, settings and the engine interface\<close>

text \<open>
  The client is written against the QuickFIX library, which is not part of the repository.
  This section fixes the part of its interface that the client calls: a message is a header
  and a body of tag/value fields plus the repeating groups filed under their count tag;
  \<open>getField\<close> raises \<open>FieldNotFound\<close> for an absent tag; \<open>setField\<close> overwrites;
  \<open>addGroup\<close> appends a group and rewrites the count field; session settings map a
  session identifier to a dictionary of strings.
\<close>

type_synonym FieldMap = "nat \<rightharpoonup> string"

record Message =
  header :: FieldMap
  body :: FieldMap
  groups :: "nat \<Rightarrow> FieldMap list"

record SessionID =
  beginString :: string
  senderCompID :: string
  targetCompID :: string
  sessionQualifier :: string

datatype exn =
    FieldNotFound nat
  | IncorrectDataFormat nat
  | IncorrectTagValue nat
  | UnsupportedMessageType
  | ConfigError
  | SessionNotFound
  | StdException string

type_synonym Dictionary = "string \<rightharpoonup> string"

text \<open>
  \<open>SessionSettings\<close>: the sessions in the iteration order of \<open>getSessions()\<close>, each with
  its dictionary.
\<close>

type_synonym SessionSettings = "(SessionID \<times> Dictionary) list"

definition settings_get :: "SessionSettings \<Rightarrow> SessionID \<Rightarrow> exn + Dictionary" where
  "settings_get settings sid =
     (case map_of settings sid of None \<Rightarrow> Inl ConfigError | Some d \<Rightarrow> Inr d)"

definition getSessions :: "SessionSettings \<Rightarrow> SessionID list" where
  "getSessions settings = map fst settings"

abbreviation (input) FIELD_BeginString :: nat where "FIELD_BeginString \<equiv> 8"
abbreviation (input) FIELD_MsgType :: nat where "FIELD_MsgType \<equiv> 35"
abbreviation (input) FIELD_Symbol :: nat where "FIELD_Symbol \<equiv> 55"
abbreviation (input) FIELD_Text :: nat where "FIELD_Text \<equiv> 58"
abbreviation (input) FIELD_NoRelatedSym :: nat where "FIELD_NoRelatedSym \<equiv> 146"
abbreviation (input) FIELD_MDReqID :: nat where "FIELD_MDReqID \<equiv> 262"
abbreviation (input) FIELD_SubscriptionRequestType :: nat where "FIELD_SubscriptionRequestType \<equiv> 263"
abbreviation (input) FIELD_MarketDepth :: nat where "FIELD_MarketDepth \<equiv> 264"
abbreviation (input) FIELD_NoMDEntryTypes :: nat where "FIELD_NoMDEntryTypes \<equiv> 267"
abbreviation (input) FIELD_NoMDEntries :: nat where "FIELD_NoMDEntries \<equiv> 268"
abbreviation (input) FIELD_MDEntryType :: nat where "FIELD_MDEntryType \<equiv> 269"
abbreviation (input) FIELD_MDEntryPx :: nat where "FIELD_MDEntryPx \<equiv> 270"
abbreviation (input) FIELD_MDReqRejReason :: nat where "FIELD_MDReqRejReason \<equiv> 281"
abbreviation (input) FIELD_Username :: nat where "FIELD_Username \<equiv> 553"
abbreviation (input) FIELD_Password :: nat where "FIELD_Password \<equiv> 554"

abbreviation (input) MsgType_Logon :: string where "MsgType_Logon \<equiv> ''A''"
abbreviation (input) newline :: char where "newline \<equiv> CHR 0x0A"

subsection \<open>Integers as field values and on the output stream\<close>

function string_of_nat :: "nat \<Rightarrow> string" where
  "string_of_nat n =
     (if n < 10 then [''0123456789'' ! n]
      else string_of_nat (n div 10) @ [''0123456789'' ! (n mod 10)])"
  by pat_completeness auto
termination
  by (relation "measure id") auto

declare string_of_nat.simps [simp del]

definition string_of_int :: "int \<Rightarrow> string" where
  "string_of_int i =
     (if i < 0 then CHR ''-'' # string_of_nat (nat (- i)) else string_of_nat (nat i))"

definition digit_value :: "char \<Rightarrow> nat option" where
  "digit_value c =
     (let n = (of_char c :: nat) in if 48 \<le> n \<and> n \<le> 57 then Some (n - 48) else None)"

fun digits_value :: "string \<Rightarrow> nat \<Rightarrow> nat option" where
  "digits_value [] acc = Some acc"
| "digits_value (c # cs) acc =
     (case digit_value c of None \<Rightarrow> None | Some d \<Rightarrow> digits_value cs (10 * acc + d))"

text \<open>
  \<open>IntConvertor::convert\<close>: an optional minus sign and then one or more decimal digits,
  nothing else. The result is kept unbounded here; a count field beyond the range of
  \<open>int\<close> is outside this model.
\<close>

definition IntConvertor_convert :: "string \<Rightarrow> int option" where
  "IntConvertor_convert s =
     (case s of
        [] \<Rightarrow> None
      | c # cs \<Rightarrow>
          if c = CHR ''-''
          then (if cs = [] then None else map_option (\<lambda>n. - int n) (digits_value cs 0))
          else map_option int (digits_value s 0))"

subsection \<open>Field maps and messages\<close>

definition getField :: "FieldMap \<Rightarrow> nat \<Rightarrow> exn + string" where
  "getField m tag = (case m tag of None \<Rightarrow> Inl (FieldNotFound tag) | Some v \<Rightarrow> Inr v)"

definition isSetField :: "FieldMap \<Rightarrow> nat \<Rightarrow> bool" where
  "isSetField m tag = (m tag \<noteq> None)"

definition setField :: "nat \<Rightarrow> string \<Rightarrow> Message \<Rightarrow> Message" where
  "setField tag v msg = msg\<lparr>body := (body msg)(tag \<mapsto> v)\<rparr>"

definition addGroup :: "nat \<Rightarrow> FieldMap \<Rightarrow> Message \<Rightarrow> Message" where
  "addGroup tag g msg =
     msg\<lparr>groups := (groups msg)(tag := groups msg tag @ [g]),
         body := (body msg)(tag \<mapsto> string_of_int (int (length (groups msg tag)) + 1))\<rparr>"

definition getGroup :: "Message \<Rightarrow> int \<Rightarrow> nat \<Rightarrow> exn + FieldMap" where
  "getGroup msg i tag =
     (if 1 \<le> i \<and> i \<le> int (length (groups msg tag))
      then Inr (groups msg tag ! nat (i - 1)) else Inl (FieldNotFound tag))"

text \<open>The empty FIX 4.4 message of a given type, as the generated message classes start.\<close>

definition FIX44_Message :: "string \<Rightarrow> Message" where
  "FIX44_Message mt =
     \<lparr>header = [FIELD_BeginString \<mapsto> ''FIX.4.4'', FIELD_MsgType \<mapsto> mt],
      body = Map.empty, groups = (\<lambda>_. [])\<rparr>"

text \<open>
  \<open>FIX44::MarketDataRequest(MDReqID, SubscriptionRequestType, MarketDepth)\<close>: message type
  V with the three required fields set; a character field holds that one character, an
  integer field its decimal form.
\<close>

definition MarketDataRequest :: "string \<Rightarrow> char \<Rightarrow> int \<Rightarrow> Message" where
  "MarketDataRequest reqid srt depth =
     setField FIELD_MarketDepth (string_of_int depth)
       (setField FIELD_SubscriptionRequestType [srt]
          (setField FIELD_MDReqID reqid (FIX44_Message ''V'')))"

definition SessionID_toString :: "SessionID \<Rightarrow> string" where
  "SessionID_toString sid =
     beginString sid @ '':'' @ senderCompID sid @ ''->'' @ targetCompID sid
       @ (if sessionQualifier sid = [] then [] else '':'' @ sessionQualifier sid)"

text \<open>\<open>s[0]\<close> on a \<open>const std::string&\<close>: the first character, the null character when empty.\<close>

definition first_char :: "string \<Rightarrow> char" where
  "first_char s = (case s of [] \<Rightarrow> CHR 0x00 | c # _ \<Rightarrow> c)"

text \<open>
  What the C++ runtime contributes and this development leaves open: \<open>std::stod\<close> (which
  raises on text that is no number), the text \<open>operator<<\<close> prints for a \<open>double\<close>,
  and \<open>what()\<close> of an exception. \<open>'d\<close> stands for \<open>double\<close>.
\<close>

record 'd runtime =
  stod :: "string \<Rightarrow> exn + 'd"
  put_double :: "'d \<Rightarrow> string"
  what :: "exn \<Rightarrow> string"

section \<open>The application object\<close>

text \<open>
  What the client asks of the engine, in the order it asks: the calls are kept as a trace,
  so that "sends exactly one", "sends nothing" and "only afterwards" are statements about
  that trace.
\<close>

datatype call =
    SendToTarget Message SessionID
  | SessionLogout SessionID string
  | InitiatorStart
  | InitiatorStop
  | SleepMs nat

text \<open>
  The members of \<open>App\<close> (\<^verbatim>\<open>sid_\<close>, \<^verbatim>\<open>settings_\<close>, \<^verbatim>\<open>firstData_\<close>, written here
  with a final \<open>m\<close> since a name cannot end in an underscore; the mutex and the
  condition variable carry no data) together with what its methods act on: the two output
  streams, the trace of engine calls, and the sessions the engine has registered, which is
  what \<open>Session::lookupSession\<close> consults.
\<close>

record state =
  sid_m :: SessionID
  settings_m :: SessionSettings
  firstData_m :: bool
  cout :: string
  cerr :: string
  calls :: "call list"
  sessions :: "SessionID list"

text \<open>
  A method returns the state it leaves behind and the exception it raised, if any: what
  was printed before a \<open>throw\<close> stays printed.
\<close>

type_synonym outcome = "state \<times> exn option"

definition Dictionary_has :: "Dictionary \<Rightarrow> string \<Rightarrow> bool" where
  "Dictionary_has d key = (d key \<noteq> None)"

definition Dictionary_getString :: "Dictionary \<Rightarrow> string \<Rightarrow> exn + string" where
  "Dictionary_getString d key = (case d key of None \<Rightarrow> Inl ConfigError | Some v \<Rightarrow> Inr v)"

text \<open>
  \<open>Session::sendToTarget(msg, sid)\<close> raises \<open>SessionNotFound\<close> when no session \<open>sid\<close>
  is registered and hands the message to that session otherwise.
\<close>

definition sendToTarget :: "Message \<Rightarrow> SessionID \<Rightarrow> state \<Rightarrow> outcome" where
  "sendToTarget msg sid st =
     (if sid \<in> set (sessions st) then (st\<lparr>calls := calls st @ [SendToTarget msg sid]\<rparr>, None)
      else (st, Some SessionNotFound))"

definition print :: "string \<Rightarrow> state \<Rightarrow> state" where
  "print s st = st\<lparr>cout := cout st @ s\<rparr>"

subsection \<open>Session callbacks (lines 31-54)\<close>

definition onCreate :: "SessionID \<Rightarrow> state \<Rightarrow> state" where
  "onCreate sid st = st\<lparr>sid_m := sid\<rparr>"

text \<open>
  \<^verbatim>\<open>
  void sendSubscribe() {
    const auto& d = settings_.get(sid_);
    FIX44::MarketDataRequest req(FIX::MDReqID("REQ-1"), FIX::SubscriptionRequestType('1'),
                                 FIX::MarketDepth(1));
    { FIX44::MarketDataRequest::NoMDEntryTypes e; e.set(FIX::MDEntryType('0')); req.addGroup(e); }
    { FIX44::MarketDataRequest::NoMDEntryTypes e; e.set(FIX::MDEntryType('1')); req.addGroup(e); }
    std::string raw = d.has("Symbols") ? d.getString("Symbols") : "GBPUSD";
    for (auto& s : splitCSV(raw)) { FIX44::MarketDataRequest::NoRelatedSym g;
                                    g.set(FIX::Symbol(s)); req.addGroup(g); }
    FIX::Session::sendToTarget(req, sid_);
  }
  \<close>
\<close>

definition subscribe_request :: "string \<Rightarrow> Message" where
  "subscribe_request raw =
     fold (\<lambda>s. addGroup FIELD_NoRelatedSym [FIELD_Symbol \<mapsto> s]) (splitCSV raw)
       (addGroup FIELD_NoMDEntryTypes [FIELD_MDEntryType \<mapsto> [CHR ''1'']]
          (addGroup FIELD_NoMDEntryTypes [FIELD_MDEntryType \<mapsto> [CHR ''0'']]
             (MarketDataRequest ''REQ-1'' CHR ''1'' 1)))"

definition sendSubscribe :: "state \<Rightarrow> outcome" where
  "sendSubscribe st =
     (case settings_get (settings_m st) (sid_m st) of
        Inl e \<Rightarrow> (st, Some e)
      | Inr d \<Rightarrow>
          (case (if Dictionary_has d ''Symbols'' then Dictionary_getString d ''Symbols''
                 else Inr ''GBPUSD'') of
             Inl e \<Rightarrow> (st, Some e)
           | Inr raw \<Rightarrow> sendToTarget (subscribe_request raw) (sid_m st) st))"

text \<open>
  \<^verbatim>\<open>
  void sendUnsubscribeAll() {
    const auto& d = settings_.get(sid_);
    FIX44::MarketDataRequest u(FIX::MDReqID("REQ-1"), FIX::SubscriptionRequestType('2'),
                               FIX::MarketDepth(0));
    std::string raw = d.has("Symbols") ? d.getString("Symbols") : "GBPUSD";
    for (auto& s : splitCSV(raw)) { FIX44::MarketDataRequest::NoRelatedSym g;
                                    g.set(FIX::Symbol(s)); u.addGroup(g); }
    FIX::Session::sendToTarget(u, sid_);
  }
  \<close>
\<close>

definition unsubscribe_request :: "string \<Rightarrow> Message" where
  "unsubscribe_request raw =
     fold (\<lambda>s. addGroup FIELD_NoRelatedSym [FIELD_Symbol \<mapsto> s]) (splitCSV raw)
       (MarketDataRequest ''REQ-1'' CHR ''2'' 0)"

definition sendUnsubscribeAll :: "state \<Rightarrow> outcome" where
  "sendUnsubscribeAll st =
     (case settings_get (settings_m st) (sid_m st) of
        Inl e \<Rightarrow> (st, Some e)
      | Inr d \<Rightarrow>
          (case (if Dictionary_has d ''Symbols'' then Dictionary_getString d ''Symbols''
                 else Inr ''GBPUSD'') of
             Inl e \<Rightarrow> (st, Some e)
           | Inr raw \<Rightarrow> sendToTarget (unsubscribe_request raw) (sid_m st) st))"

definition onLogon :: "SessionID \<Rightarrow> state \<Rightarrow> outcome" where
  "onLogon sid st = sendSubscribe (print (''Logon: '' @ SessionID_toString sid @ [newline]) st)"

definition onLogout :: "SessionID \<Rightarrow> state \<Rightarrow> state" where
  "onLogout sid st = print (''Logout: '' @ SessionID_toString sid @ [newline]) st"

text \<open>
  \<^verbatim>\<open>
  void toAdmin(FIX::Message& msg, const FIX::SessionID&) noexcept override {
    FIX::MsgType mt; msg.getHeader().getField(mt);
    if (mt == FIX::MsgType_Logon) {
      const auto& d = settings_.get(sid_);
      if (d.has("Username")) msg.setField(FIX::Username(d.getString("Username")));
      if (d.has("Password")) msg.setField(FIX::Password(d.getString("Password")));
    }
  }
  \<close>
  The method changes its message argument and nothing else, so it returns the message.
  It is \<open>noexcept\<close>: an exception inside ends the process (\<open>std::terminate\<close>), which is
  the result \<open>None\<close>.
\<close>

definition set_if_configured :: "Dictionary \<Rightarrow> string \<Rightarrow> nat \<Rightarrow> Message \<Rightarrow> Message option" where
  "set_if_configured d key tag msg =
     (if Dictionary_has d key
      then (case Dictionary_getString d key of Inl e \<Rightarrow> None | Inr v \<Rightarrow> Some (setField tag v msg))
      else Some msg)"

definition toAdmin :: "state \<Rightarrow> Message \<Rightarrow> SessionID \<Rightarrow> Message option" where
  "toAdmin st msg sid =
     (case getField (header msg) FIELD_MsgType of
        Inl e \<Rightarrow> None
      | Inr mt \<Rightarrow>
          if mt = MsgType_Logon
          then (case settings_get (settings_m st) (sid_m st) of
                  Inl e \<Rightarrow> None
                | Inr d \<Rightarrow>
                    (case set_if_configured d ''Username'' FIELD_Username msg of
                       None \<Rightarrow> None
                     | Some msg' \<Rightarrow> set_if_configured d ''Password'' FIELD_Password msg'))
          else Some msg)"

definition fromAdmin :: "Message \<Rightarrow> SessionID \<Rightarrow> state \<Rightarrow> outcome" where
  "fromAdmin msg sid st = (st, None)"

definition toApp :: "Message \<Rightarrow> SessionID \<Rightarrow> state \<Rightarrow> outcome" where
  "toApp msg sid st = (st, None)"

subsection \<open>Application messages (lines 57-78)\<close>

text \<open>
  \<^verbatim>\<open>
  void onMessage(const FIX44::MarketDataRequestReject& rej, const FIX::SessionID&) override {
    std::string id = rej.isSetField(262) ? rej.getField(262) : "";
    std::string rs = rej.isSetField(281) ? rej.getField(281) : "";
    std::string tx = rej.isSetField(58)  ? rej.getField(58)  : "";
    std::cout << "MD Reject (35=Y) MDReqID=" << id << " reason(281)=" << rs
              << " text=" << tx << "\n";
  }
  \<close>
\<close>

definition field_or_empty :: "Message \<Rightarrow> nat \<Rightarrow> exn + string" where
  "field_or_empty msg tag =
     (if isSetField (body msg) tag then getField (body msg) tag else Inr [])"

definition onMessage_MarketDataRequestReject :: "Message \<Rightarrow> SessionID \<Rightarrow> state \<Rightarrow> outcome" where
  "onMessage_MarketDataRequestReject rej sid st =
     (case field_or_empty rej 262 of
        Inl e \<Rightarrow> (st, Some e)
      | Inr ident \<Rightarrow>
          (case field_or_empty rej 281 of
             Inl e \<Rightarrow> (st, Some e)
           | Inr rs \<Rightarrow>
               (case field_or_empty rej 58 of
                  Inl e \<Rightarrow> (st, Some e)
                | Inr tx \<Rightarrow>
                    (print (''MD Reject (35=Y) MDReqID='' @ ident @ '' reason(281)='' @ rs
                            @ '' text='' @ tx @ [newline]) st, None))))"

text \<open>
  \<^verbatim>\<open>
  void onMessage(const FIX44::MarketDataSnapshotFullRefresh& snap, const FIX::SessionID&) override {
    std::string sym = snap.getField(FIX::FIELD::Symbol);
    FIX::NoMDEntries n; snap.get(n);
    std::cout << "W: " << sym << " entries=" << n.getValue() << " :: ";
    for (int i=1; i<=n.getValue(); ++i) {
      FIX44::MarketDataSnapshotFullRefresh::NoMDEntries g; snap.getGroup(i, g);
      char t = g.getField(FIX::FIELD::MDEntryType)[0];
      double px = std::stod(g.getField(FIX::FIELD::MDEntryPx));
      std::cout << (t=='0'?"BID":"ASK") << '=' << px << (i<n.getValue()?" | ":"");
    }
    std::cout << '\n';
    firstData_.store(true); cv_.notify_all();
  }
  \<close>
  \<open>n.getValue()\<close> converts the text of field 268 and raises \<open>IncorrectDataFormat\<close> when
  that is no integer; the conversion of the first output line is taken before its text is
  written. The loop body is \<open>snapshot_entry\<close>, the loop \<open>snapshot_loop\<close>.
\<close>

definition snapshot_entry :: "'d runtime \<Rightarrow> Message \<Rightarrow> int \<Rightarrow> int \<Rightarrow> state \<Rightarrow> outcome" where
  "snapshot_entry rt snap n i st =
     (case getGroup snap i FIELD_NoMDEntries of
        Inl e \<Rightarrow> (st, Some e)
      | Inr g \<Rightarrow>
          (case getField g FIELD_MDEntryType of
             Inl e \<Rightarrow> (st, Some e)
           | Inr ts \<Rightarrow>
               (case getField g FIELD_MDEntryPx of
                  Inl e \<Rightarrow> (st, Some e)
                | Inr ps \<Rightarrow>
                    (case stod rt ps of
                       Inl e \<Rightarrow> (st, Some e)
                     | Inr px \<Rightarrow>
                         (print ((if first_char ts = CHR ''0'' then ''BID'' else ''ASK'')
                                 @ ''='' @ put_double rt px
                                 @ (if i < n then '' | '' else [])) st, None)))))"

function snapshot_loop :: "'d runtime \<Rightarrow> Message \<Rightarrow> int \<Rightarrow> int \<Rightarrow> state \<Rightarrow> outcome" where
  "snapshot_loop rt snap n i st =
     (if i \<le> n
      then (case snapshot_entry rt snap n i st of
              (st', Some e) \<Rightarrow> (st', Some e)
            | (st', None) \<Rightarrow> snapshot_loop rt snap n (i + 1) st')
      else (st, None))"
  by pat_completeness auto
termination
  by (relation "measure (\<lambda>(rt, snap, n, i, st). nat (n + 1 - i))") auto

declare snapshot_loop.simps [simp del]

definition onMessage_MarketDataSnapshotFullRefresh ::
  "'d runtime \<Rightarrow> Message \<Rightarrow> SessionID \<Rightarrow> state \<Rightarrow> outcome" where
  "onMessage_MarketDataSnapshotFullRefresh rt snap sid st =
     (case getField (body snap) FIELD_Symbol of
        Inl e \<Rightarrow> (st, Some e)
      | Inr symbol \<Rightarrow>
          (case getField (body snap) FIELD_NoMDEntries of
             Inl e \<Rightarrow> (st, Some e)
           | Inr cnt \<Rightarrow>
               (case IntConvertor_convert cnt of
                  None \<Rightarrow> (st, Some (IncorrectDataFormat FIELD_NoMDEntries))
                | Some n \<Rightarrow>
                    (case snapshot_loop rt snap n 1
                            (print (''W: '' @ symbol @ '' entries='' @ string_of_int n @ '' :: '') st) of
                       (st', Some e) \<Rightarrow> (st', Some e)
                     | (st', None) \<Rightarrow> ((print [newline] st')\<lparr>firstData_m := True\<rparr>, None)))))"

text \<open>
  How a callback ends, as the engine sees it: it returns, it throws an exception to the
  engine, or the process is terminated inside it.
\<close>

datatype completion = Returns | Throws exn | Terminates

text \<open>
  A callback without an exception specification passes on whatever is raised inside.
\<close>

definition propagates :: "outcome \<Rightarrow> state \<times> completion" where
  "propagates r = (case r of (st, None) \<Rightarrow> (st, Returns) | (st, Some e) \<Rightarrow> (st, Throws e))"

text \<open>
  A dynamic exception specification \<^verbatim>\<open>throw(...)\<close> passes on the exceptions of its list;
  for any other exception \<open>std::unexpected\<close> is called, which ends the process with
  \<open>std::terminate\<close>.
\<close>

definition exception_specification :: "(exn \<Rightarrow> bool) \<Rightarrow> outcome \<Rightarrow> state \<times> completion" where
  "exception_specification listed r =
     (case r of
        (st, None) \<Rightarrow> (st, Returns)
      | (st, Some e) \<Rightarrow> if listed e then (st, Throws e) else (st, Terminates))"

text \<open>
  \<open>crack(msg, sid)\<close>: the message cracker picks the handler by BeginString and MsgType,
  and its handler for every type the application does not override raises
  \<open>UnsupportedMessageType\<close>.
\<close>

definition crack :: "'d runtime \<Rightarrow> Message \<Rightarrow> SessionID \<Rightarrow> state \<Rightarrow> outcome" where
  "crack rt msg sid st =
     (case getField (header msg) FIELD_BeginString of
        Inl e \<Rightarrow> (st, Some e)
      | Inr bs \<Rightarrow>
          (case getField (header msg) FIELD_MsgType of
             Inl e \<Rightarrow> (st, Some e)
           | Inr mt \<Rightarrow>
               if bs = ''FIX.4.4'' \<and> mt = ''Y'' then onMessage_MarketDataRequestReject msg sid st
               else if bs = ''FIX.4.4'' \<and> mt = ''W''
               then onMessage_MarketDataSnapshotFullRefresh rt msg sid st
               else (st, Some UnsupportedMessageType)))"

text \<open>
  \<^verbatim>\<open>
  void fromApp(const FIX::Message& msg, const FIX::SessionID& sid)
    throw(FIX::FieldNotFound, FIX::IncorrectDataFormat, FIX::IncorrectTagValue,
          FIX::UnsupportedMessageType) override {
    crack(msg, sid);
  }
  \<close>
  The four exceptions of the list go to the engine. An exception of \<open>std::stod\<close> in the
  snapshot handler (\<open>std::invalid_argument\<close>, \<open>std::out_of_range\<close>) is not in the
  list: it ends the process.
\<close>

definition fromApp_lists :: "exn \<Rightarrow> bool" where
  "fromApp_lists e =
     (case e of
        FieldNotFound tag \<Rightarrow> True
      | IncorrectDataFormat tag \<Rightarrow> True
      | IncorrectTagValue tag \<Rightarrow> True
      | UnsupportedMessageType \<Rightarrow> True
      | _ \<Rightarrow> False)"

definition fromApp :: "'d runtime \<Rightarrow> Message \<Rightarrow> SessionID \<Rightarrow> state \<Rightarrow> state \<times> completion" where
  "fromApp rt msg sid st = exception_specification fromApp_lists (crack rt msg sid st)"

section \<open>The I/O worker, the wait for first data, and main\<close>

text \<open>
  The engine runs the callbacks on its I/O worker. An event is one such callback with its
  arguments; \<open>deliver\<close> runs it on the application and tells how it ended. An exception
  a callback throws goes to the engine, not to \<open>main\<close>, and the worker goes on with the
  next event; a callback that terminates the process ends the run. \<open>onCreate\<close>,
  \<open>onLogon\<close> and \<open>onLogout\<close> have no exception specification; the bodies of
  \<open>fromAdmin\<close> and \<open>toApp\<close> are empty, so their specifications never come into play.
  (\<open>toAdmin\<close> acts on the engine's message and leaves the application as it is; it is
  not among the events, and \<open>toAdmin_returns\<close> below shows that it returns for the
  messages and sessions of the engine.)
\<close>

datatype event =
    OnCreate SessionID
  | OnLogon SessionID
  | OnLogout SessionID
  | FromAdmin Message SessionID
  | ToApp Message SessionID
  | FromApp Message SessionID

fun deliver :: "'d runtime \<Rightarrow> event \<Rightarrow> state \<Rightarrow> state \<times> completion" where
  "deliver rt (OnCreate sid) st = (onCreate sid st, Returns)"
| "deliver rt (OnLogon sid) st = propagates (onLogon sid st)"
| "deliver rt (OnLogout sid) st = (onLogout sid st, Returns)"
| "deliver rt (FromAdmin msg sid) st = propagates (fromAdmin msg sid st)"
| "deliver rt (ToApp msg sid) st = propagates (toApp msg sid st)"
| "deliver rt (FromApp msg sid) st = fromApp rt msg sid st"

text \<open>
  The worker delivering a list of events: \<open>Inr\<close> the state after the last of them,
  \<open>Inl\<close> the state in which a callback terminated the process.
\<close>

fun run_worker :: "'d runtime \<Rightarrow> event list \<Rightarrow> state \<Rightarrow> state + state" where
  "run_worker rt [] st = Inr st"
| "run_worker rt (e # es) st =
     (case deliver rt e st of
        (st', Terminates) \<Rightarrow> Inl st'
      | (st', _) \<Rightarrow> run_worker rt es st')"

text \<open>
  \<^verbatim>\<open>
  bool waitFirstDataMs(int ms) {
    std::unique_lock<std::mutex> lk(m_);
    return cv_.wait_for(lk, std::chrono::milliseconds(ms), [&]{ return firstData_.load(); });
  }
  \<close>
  \<open>wait_for\<close> with a predicate is, by the C++ standard,
  \<^verbatim>\<open>while (!pred()) if (wait_until(lk, deadline) == timeout) return pred(); return true;\<close>
  Time is logical here: the worker's events come with their arrival time in milliseconds
  after the call. The wait returns \<open>true\<close> once the flag is set; an event that arrives
  before the deadline is delivered while the caller is blocked; at the deadline the wait
  returns the flag. The result \<open>Inr\<close> is the answer, the time of return, the events not
  yet delivered, and the state. When a callback terminates the process the wait never
  returns: the result is \<open>Inl\<close> with the state at that moment.
\<close>

fun wait_loop ::
  "'d runtime \<Rightarrow> int \<Rightarrow> nat \<Rightarrow> (nat \<times> event) list \<Rightarrow> state
     \<Rightarrow> state + bool \<times> nat \<times> (nat \<times> event) list \<times> state" where
  "wait_loop rt ms now [] st =
     (if firstData_m st then Inr (True, now, [], st)
      else Inr (firstData_m st, max now (nat ms), [], st))"
| "wait_loop rt ms now ((t, e) # evs) st =
     (if firstData_m st then Inr (True, now, (t, e) # evs, st)
      else if int t < ms
      then (case deliver rt e st of
              (st', Terminates) \<Rightarrow> Inl st'
            | (st', _) \<Rightarrow> wait_loop rt ms (max now t) evs st')
      else Inr (firstData_m st, max now (nat ms), (t, e) # evs, st))"

definition waitFirstDataMs ::
  "'d runtime \<Rightarrow> int \<Rightarrow> (nat \<times> event) list \<Rightarrow> state
     \<Rightarrow> state + bool \<times> nat \<times> (nat \<times> event) list \<times> state" where
  "waitFirstDataMs rt ms evs st = wait_loop rt ms 0 evs st"

subsection \<open>main (lines 111-138)\<close>

text \<open>
  What \<open>main\<close> meets outside the program: the settings file (the constructor of
  \<open>SessionSettings\<close> raises when it cannot be read), the sessions the initiator creates
  from the settings (its constructor registers each and calls \<open>onCreate\<close>, or raises),
  whether \<open>start()\<close> raises, and the callbacks the worker delivers until the operator
  presses Enter.
\<close>

record world =
  read_settings :: "string \<Rightarrow> exn + SessionSettings"
  create_sessions :: "SessionSettings \<Rightarrow> exn + SessionID list"
  start_raises :: "exn option"
  worker :: "(nat \<times> event) list"

definition engine_call :: "call \<Rightarrow> state \<Rightarrow> state" where
  "engine_call c st = st\<lparr>calls := calls st @ [c]\<rparr>"

definition SessionID_default :: SessionID where
  "SessionID_default =
     \<lparr>beginString = [], senderCompID = [], targetCompID = [], sessionQualifier = []\<rparr>"

definition process_start :: state where
  "process_start =
     \<lparr>sid_m = SessionID_default, settings_m = [], firstData_m = False,
      cout = [], cerr = [], calls = [], sessions = []\<rparr>"

text \<open>\<open>App app(settings)\<close>: the constructor keeps the settings and clears the flag.\<close>

definition App_new :: "SessionSettings \<Rightarrow> state \<Rightarrow> state" where
  "App_new settings st =
     st\<lparr>sid_m := SessionID_default, settings_m := settings, firstData_m := False\<rparr>"

definition initiator_new :: "SessionID list \<Rightarrow> state \<Rightarrow> state" where
  "initiator_new sids st =
     fold (\<lambda>sid st'. onCreate sid (st'\<lparr>sessions := sessions st' @ [sid]\<rparr>)) sids st"

text \<open>
  \<^verbatim>\<open>
  auto sids = settings.getSessions();
  if (!sids.empty()) if (auto* s = FIX::Session::lookupSession(*sids.begin())) s->logout("Client exit");
  \<close>
\<close>

definition request_logout :: "SessionSettings \<Rightarrow> state \<Rightarrow> state" where
  "request_logout settings st =
     (case getSessions settings of
        [] \<Rightarrow> st
      | s # _ \<Rightarrow>
          if s \<in> set (sessions st) then engine_call (SessionLogout s ''Client exit'') st
          else st)"

text \<open>
  Lines 127-133, from the operator's Enter to \<open>return 0\<close>:
  \<^verbatim>\<open>
  app.sendUnsubscribeAll();
  auto sids = settings.getSessions();
  if (!sids.empty()) if (auto* s = FIX::Session::lookupSession(*sids.begin())) s->logout("Client exit");
  std::this_thread::sleep_for(std::chrono::milliseconds(300));
  initiator.stop();
  \<close>
\<close>

definition shutdown :: "SessionSettings \<Rightarrow> state \<Rightarrow> outcome" where
  "shutdown settings st =
     (case sendUnsubscribeAll st of
        (st1, Some e) \<Rightarrow> (st1, Some e)
      | (st1, None) \<Rightarrow>
          (engine_call InitiatorStop
             (engine_call (SleepMs 300) (request_logout settings st1)), None))"

text \<open>
  The body of the \<open>try\<close> block. The text printed before \<open>cin.get()\<close> has the three
  bytes of the ellipsis character the source writes.
\<close>

definition running_banner :: string where
  "running_banner =
     ''Running'' @ [CHR 0xE2, CHR 0x80, CHR 0xA6] @ '' press Enter to unsubscribe and logout.''
       @ [newline]"

definition client_body :: "'d runtime \<Rightarrow> world \<Rightarrow> string \<Rightarrow> state \<Rightarrow> state \<times> completion" where
  "client_body rt w cfg st =
     (case read_settings w cfg of
        Inl e \<Rightarrow> (st, Throws e)
      | Inr settings \<Rightarrow>
          (case create_sessions w settings of
             Inl e \<Rightarrow> (App_new settings st, Throws e)
           | Inr sids \<Rightarrow>
               (case start_raises w of
                  Some e \<Rightarrow> (initiator_new sids (App_new settings st), Throws e)
                | None \<Rightarrow>
                    (case waitFirstDataMs rt 60000 (worker w)
                            (engine_call InitiatorStart
                               (initiator_new sids (App_new settings st))) of
                       Inl st1 \<Rightarrow> (st1, Terminates)
                     | Inr (ok, t, rest, st1) \<Rightarrow>
                         (case run_worker rt (map snd rest) (print running_banner st1) of
                            Inl st2 \<Rightarrow> (st2, Terminates)
                          | Inr st2 \<Rightarrow> propagates (shutdown settings st2))))))"

text \<open>
  \<^verbatim>\<open>
  int main(int argc, char** argv) {
    if (argc < 2) { std::cerr << "usage: " << argv[0] << " client.cfg\n"; return 2; }
    try { ...; return 0; }
    catch (const std::exception& e) { std::cerr << "fatal: " << e.what() << "\n"; return 1; }
  }
  \<close>
  \<open>prog\<close> is \<open>argv[0]\<close> and \<open>args\<close> the arguments after it, so \<open>argc\<close> is
  \<open>1 + length args\<close>. The result is how the process ended and its final state:
  \<open>Exited c\<close> when \<open>main\<close> returned \<open>c\<close>, \<open>Aborted\<close> when \<open>std::terminate\<close> ended
  the process in a callback of the worker, in which case \<open>main\<close> returns nothing.
\<close>

datatype exit_status = Exited int | Aborted

definition main ::
  "'d runtime \<Rightarrow> world \<Rightarrow> string \<Rightarrow> string list \<Rightarrow> exit_status \<times> state" where
  "main rt w prog args =
     (if 1 + length args < 2
      then (Exited 2, process_start\<lparr>cerr := ''usage: '' @ prog @ '' client.cfg'' @ [newline]\<rparr>)
      else (case client_body rt w (args ! 0) process_start of
              (st, Throws e) \<Rightarrow>
                (Exited 1, st\<lparr>cerr := cerr st @ ''fatal: '' @ what rt e @ [newline]\<rparr>)
            | (st, Returns) \<Rightarrow> (Exited 0, st)
            | (st, Terminates) \<Rightarrow> (Aborted, st)))"

text \<open>
  A runtime and a configuration to evaluate examples with: prices are kept as their text,
  and only digits and a decimal point count as a number.
\<close>

definition text_runtime :: "string runtime" where
  "text_runtime =
     \<lparr>stod = (\<lambda>s. if s \<noteq> [] \<and> (\<forall>c \<in> set s. c \<in> set ''0123456789.'') then Inr s
                  else Inl (StdException ''stod'')),
      put_double = (\<lambda>s. s),
      what = (\<lambda>e. case e of StdException s \<Rightarrow> s | _ \<Rightarrow> ''error'')\<rparr>"

definition demo_sid :: SessionID where
  "demo_sid =
     \<lparr>beginString = ''FIX.4.4'', senderCompID = ''CLIENT'', targetCompID = ''SERVER'',
      sessionQualifier = []\<rparr>"

definition demo_state :: "Dictionary \<Rightarrow> state" where
  "demo_state d =
     \<lparr>sid_m = demo_sid, settings_m = [(demo_sid, d)], firstData_m = False,
      cout = [], cerr = [], calls = [], sessions = [demo_sid]\<rparr>"

text \<open>A snapshot for GBPUSD with the given entries and the count field to match.\<close>

definition demo_snapshot :: "FieldMap list \<Rightarrow> Message" where
  "demo_snapshot gs =
     \<lparr>header = [FIELD_BeginString \<mapsto> ''FIX.4.4'', FIELD_MsgType \<mapsto> ''W''],
      body = [FIELD_Symbol \<mapsto> ''GBPUSD'', FIELD_NoMDEntries \<mapsto> string_of_int (int (length gs))],
      groups = (\<lambda>_. [])(FIELD_NoMDEntries := gs)\<rparr>"

text \<open>The reject of the second scenario, and an admin message of a given type.\<close>

definition demo_reject :: Message where
  "demo_reject =
     \<lparr>header = [FIELD_BeginString \<mapsto> ''FIX.4.4'', FIELD_MsgType \<mapsto> ''Y''],
      body = [FIELD_MDReqID \<mapsto> ''REQ-1'', FIELD_MDReqRejReason \<mapsto> ''0'',
              FIELD_Text \<mapsto> ''unknown symbol''],
      groups = (\<lambda>_. [])\<rparr>"

definition demo_admin :: "string \<Rightarrow> Message" where
  "demo_admin mt =
     \<lparr>header = [FIELD_BeginString \<mapsto> ''FIX.4.4'', FIELD_MsgType \<mapsto> mt],
      body = [108 \<mapsto> ''30''], groups = (\<lambda>_. [])\<rparr>"

text \<open>
  A run to evaluate \<open>main\<close> with: the settings file \<open>client.cfg\<close> holds the one session
  with no options, every other file is missing; the worker reports the logon after 10 ms
  and a two-sided snapshot after 20 ms.
\<close>

definition demo_world :: world where
  "demo_world =
     \<lparr>read_settings = (\<lambda>f. if f = ''client.cfg'' then Inr [(demo_sid, Map.empty)]
                            else Inl (StdException ''no such file'')),
      create_sessions = (\<lambda>settings. Inr (getSessions settings)),
      start_raises = None,
      worker = [(10, OnLogon demo_sid),
                (20, FromApp (demo_snapshot
                       [[FIELD_MDEntryType \<mapsto> ''0'', FIELD_MDEntryPx \<mapsto> ''1.2500''],
                        [FIELD_MDEntryType \<mapsto> ''1'', FIELD_MDEntryPx \<mapsto> ''1.2502'']]) demo_sid)]\<rparr>"

text \<open>
  The same run with a snapshot whose price is no number: \<open>std::stod\<close> raises
  inside \<open>fromApp\<close>.
\<close>

definition abort_world :: world where
  "abort_world =
     demo_world\<lparr>worker :=
       [(10, OnLogon demo_sid),
        (20, FromApp (demo_snapshot
               [[FIELD_MDEntryType \<mapsto> ''0'', FIELD_MDEntryPx \<mapsto> ''abc'']]) demo_sid)]\<rparr>"

section \<open>The specification's side\<close>

text \<open>
  The configured symbols, in the specification's words: the Symbols setting is a
  comma-separated instrument list with default GBPUSD.
\<close>

definition configured_symbols :: "Dictionary \<Rightarrow> string list" where
  "configured_symbols d =
     nonempty_fields (case d ''Symbols'' of None \<Rightarrow> ''GBPUSD'' | Some v \<Rightarrow> v)"

text \<open>
  A repeating group's count field is present once the group has an entry and holds the
  number of entries.
\<close>

definition with_count :: "nat \<Rightarrow> nat \<Rightarrow> FieldMap \<Rightarrow> FieldMap" where
  "with_count tag n m = (if n = 0 then m else m(tag \<mapsto> string_of_int (int n)))"

text \<open>
  The subscription as section 4.6 lists it: 35=V, 262=REQ-1, 263=1, 264=1, the two entry
  types 0 and 1 under 267, and one Symbol entry per configured symbol under 146.
\<close>

definition spec_subscription :: "string list \<Rightarrow> Message" where
  "spec_subscription syms =
     \<lparr>header = [FIELD_BeginString \<mapsto> ''FIX.4.4'', FIELD_MsgType \<mapsto> ''V''],
      body = with_count FIELD_NoRelatedSym (length syms)
               [FIELD_MDReqID \<mapsto> ''REQ-1'', FIELD_SubscriptionRequestType \<mapsto> ''1'',
                FIELD_MarketDepth \<mapsto> ''1'', FIELD_NoMDEntryTypes \<mapsto> ''2''],
      groups = (\<lambda>_. [])
        (FIELD_NoMDEntryTypes := [[FIELD_MDEntryType \<mapsto> ''0''], [FIELD_MDEntryType \<mapsto> ''1'']],
         FIELD_NoRelatedSym := map (\<lambda>s. [FIELD_Symbol \<mapsto> s]) syms)\<rparr>"

text \<open>
  The unsubscription: the same request identifier and symbols, 263=2; the code gives it
  depth 0 and no entry types.
\<close>

definition spec_unsubscription :: "string list \<Rightarrow> Message" where
  "spec_unsubscription syms =
     \<lparr>header = [FIELD_BeginString \<mapsto> ''FIX.4.4'', FIELD_MsgType \<mapsto> ''V''],
      body = with_count FIELD_NoRelatedSym (length syms)
               [FIELD_MDReqID \<mapsto> ''REQ-1'', FIELD_SubscriptionRequestType \<mapsto> ''2'',
                FIELD_MarketDepth \<mapsto> ''0''],
      groups = (\<lambda>_. [])(FIELD_NoRelatedSym := map (\<lambda>s. [FIELD_Symbol \<mapsto> s]) syms)\<rparr>"

text \<open>
  The record of one snapshot entry as the operator sees it, \<open>BID=<price>\<close> or
  \<open>ASK=<price>\<close>, for an entry that has its type and a price the runtime reads as a number;
  the records of one snapshot are separated by \<open>" | "\<close>.
\<close>

definition entry_label :: "string \<Rightarrow> string" where
  "entry_label ts = (case ts of [] \<Rightarrow> ''ASK'' | c # _ \<Rightarrow> if c = CHR ''0'' then ''BID'' else ''ASK'')"

definition entry_text :: "'d runtime \<Rightarrow> FieldMap \<Rightarrow> string option" where
  "entry_text rt g =
     (case g FIELD_MDEntryType of
        None \<Rightarrow> None
      | Some ts \<Rightarrow>
          (case g FIELD_MDEntryPx of
             None \<Rightarrow> None
           | Some ps \<Rightarrow>
               (case stod rt ps of
                  Inl e \<Rightarrow> None
                | Inr px \<Rightarrow> Some (entry_label ts @ ''='' @ put_double rt px))))"

fun join_bar :: "string list \<Rightarrow> string" where
  "join_bar [] = []"
| "join_bar [r] = r"
| "join_bar (r # r' # rs) = r @ '' | '' @ join_bar (r' # rs)"

text \<open>An inbound snapshot, as the worker hands it over: a FIX 4.4 message of type W.\<close>

definition is_snapshot_event :: "event \<Rightarrow> bool" where
  "is_snapshot_event e =
     (case e of
        FromApp msg sid \<Rightarrow>
          header msg FIELD_BeginString = Some ''FIX.4.4'' \<and> header msg FIELD_MsgType = Some ''W''
      | _ \<Rightarrow> False)"

text \<open>
  What the engine guarantees of the session \<open>onCreate\<close> recorded, once the initiator
  has created its sessions from the settings: it is one of the settings' sessions and it is
  registered.
\<close>

definition recorded_session_ok :: "state \<Rightarrow> bool" where
  "recorded_session_ok st =
     (map_of (settings_m st) (sid_m st) \<noteq> None \<and> sid_m st \<in> set (sessions st))"

subsection \<open>The decomposition is the right one\<close>

lemma comma_fields_not_Nil: "comma_fields s \<noteq> []"
  by (induction s) auto

lemma comma_fields_free: "f \<in> set (comma_fields s) \<Longrightarrow> CHR '','' \<notin> set f"
proof (induction s arbitrary: f)
  case Nil
  then show ?case by simp
next
  case (Cons c s)
  obtain g gs where gs: "comma_fields s = g # gs"
    using comma_fields_not_Nil [of s] by (cases "comma_fields s") auto
  show ?case
  proof (cases "c = CHR '',''")
    case True
    with Cons show ?thesis by auto
  next
    case False
    with Cons.prems gs have "f = c # g \<or> f \<in> set gs" by simp
    then show ?thesis
    proof
      assume "f = c # g"
      moreover have "CHR '','' \<notin> set g" using Cons.IH [of g] gs by simp
      ultimately show ?thesis using False by auto
    next
      assume "f \<in> set gs"
      then show ?thesis using Cons.IH [of f] gs by simp
    qed
  qed
qed

lemma join_commas_Cons:
  "fs \<noteq> [] \<Longrightarrow> join_commas (f # fs) = f @ CHR '','' # join_commas fs"
  by (cases fs) auto

lemma join_commas_cons_hd:
  "fs \<noteq> [] \<Longrightarrow> join_commas ((c # hd fs) # tl fs) = c # join_commas fs"
  by (cases fs rule: join_commas.cases) auto

lemma join_comma_fields: "join_commas (comma_fields s) = s"
  by (induction s) (simp_all add: join_commas_Cons join_commas_cons_hd comma_fields_not_Nil)

lemma comma_fields_join:
  "fs \<noteq> [] \<Longrightarrow> (\<And>f. f \<in> set fs \<Longrightarrow> CHR '','' \<notin> set f) \<Longrightarrow> comma_fields (join_commas fs) = fs"
proof (induction fs rule: join_commas.induct)
  case 1
  then show ?case by simp
next
  case (2 f)
  then have "CHR '','' \<notin> set f" by simp
  then show ?case by (induction f) auto
next
  case (3 f g fs)
  have IH: "comma_fields (join_commas (g # fs)) = g # fs"
    using 3 by simp
  have "CHR '','' \<notin> set f" using 3 by simp
  then have "comma_fields (f @ CHR '','' # join_commas (g # fs)) = f # g # fs"
    using IH by (induction f) auto
  then show ?case by simp
qed

subsection \<open>The loop computes the non-empty pieces\<close>

lemma comma_fields_append_free:
  "CHR '','' \<notin> set cur \<Longrightarrow>
   comma_fields (cur @ s) = (cur @ hd (comma_fields s)) # tl (comma_fields s)"
  by (induction cur) (auto simp: comma_fields_not_Nil)

lemma comma_fields_single: "CHR '','' \<notin> set cur \<Longrightarrow> comma_fields cur = [cur]"
  by (induction cur) auto

lemma splitCSV_loop_fields:
  "CHR '','' \<notin> set cur \<Longrightarrow>
   (case splitCSV_loop s out cur of (out', cur') \<Rightarrow> if cur' \<noteq> [] then out' @ [cur'] else out')
     = out @ nonempty_fields (cur @ s)"
proof (induction s arbitrary: out cur)
  case Nil
  then show ?case
    by (simp add: nonempty_fields_def comma_fields_single)
next
  case (Cons c s)
  show ?case
  proof (cases "c = CHR '',''")
    case True
    have "CHR '','' \<notin> set ([] :: string)" by simp
    from Cons.IH [OF this] True Cons.prems show ?thesis
      by (simp add: nonempty_fields_def comma_fields_append_free)
  next
    case False
    with Cons.prems have "CHR '','' \<notin> set (cur @ [c])" by simp
    from Cons.IH [OF this] False show ?thesis by simp
  qed
qed

lemma splitCSV_nonempty_fields: "splitCSV s = nonempty_fields s"
  using splitCSV_loop_fields [of "[]" s "[]"] by (simp add: splitCSV_def)


section \<open>The market-data requests\<close>

lemma groups_addGroup:
  "groups (addGroup tag g m) t = (if t = tag then groups m tag @ [g] else groups m t)"
  by (simp add: addGroup_def)

lemma body_addGroup:
  "body (addGroup tag g m) = (body m)(tag \<mapsto> string_of_int (int (length (groups m tag)) + 1))"
  by (simp add: addGroup_def)

lemma header_addGroup: "header (addGroup tag g m) = header m"
  by (simp add: addGroup_def)

lemma fold_addGroup_groups:
  "groups (fold (\<lambda>s. addGroup tag (f s)) syms m) t =
     (if t = tag then groups m tag @ map f syms else groups m t)"
  by (induction syms arbitrary: m) (auto simp: groups_addGroup)

lemma fold_addGroup_header: "header (fold (\<lambda>s. addGroup tag (f s)) syms m) = header m"
  by (induction syms arbitrary: m) (auto simp: header_addGroup)

lemma fold_addGroup_body:
  "body (fold (\<lambda>s. addGroup tag (f s)) syms m) =
     (if syms = [] then body m
      else (body m)(tag \<mapsto> string_of_int (int (length (groups m tag) + length syms))))"
proof (induction syms arbitrary: m)
  case Nil
  then show ?case by simp
next
  case (Cons s syms)
  show ?case
    by (auto simp: Cons.IH body_addGroup groups_addGroup algebra_simps fun_eq_iff)
qed

lemma string_of_int_digits:
  "string_of_int 0 = ''0''" "string_of_int 1 = ''1''" "string_of_int 2 = ''2''"
  by (simp_all add: string_of_int_def string_of_nat.simps)

lemma subscribe_request_spec: "subscribe_request raw = spec_subscription (splitCSV raw)"
proof (rule Message.equality)
  show "header (subscribe_request raw) = header (spec_subscription (splitCSV raw))"
    by (simp add: subscribe_request_def spec_subscription_def fold_addGroup_header
        header_addGroup MarketDataRequest_def setField_def FIX44_Message_def)
  show "body (subscribe_request raw) = body (spec_subscription (splitCSV raw))"
    by (auto simp: subscribe_request_def spec_subscription_def with_count_def
        fold_addGroup_body body_addGroup groups_addGroup MarketDataRequest_def setField_def
        FIX44_Message_def string_of_int_digits fun_eq_iff)
  show "groups (subscribe_request raw) = groups (spec_subscription (splitCSV raw))"
    by (auto simp: subscribe_request_def spec_subscription_def fold_addGroup_groups
        groups_addGroup MarketDataRequest_def setField_def FIX44_Message_def fun_eq_iff)
qed simp

lemma unsubscribe_request_spec: "unsubscribe_request raw = spec_unsubscription (splitCSV raw)"
proof (rule Message.equality)
  show "header (unsubscribe_request raw) = header (spec_unsubscription (splitCSV raw))"
    by (simp add: unsubscribe_request_def spec_unsubscription_def fold_addGroup_header
        MarketDataRequest_def setField_def FIX44_Message_def)
  show "body (unsubscribe_request raw) = body (spec_unsubscription (splitCSV raw))"
    by (auto simp: unsubscribe_request_def spec_unsubscription_def with_count_def
        fold_addGroup_body MarketDataRequest_def setField_def
        FIX44_Message_def string_of_int_digits fun_eq_iff)
  show "groups (unsubscribe_request raw) = groups (spec_unsubscription (splitCSV raw))"
    by (auto simp: unsubscribe_request_def spec_unsubscription_def fold_addGroup_groups
        MarketDataRequest_def setField_def FIX44_Message_def fun_eq_iff)
qed simp

lemma symbols_raw:
  "(if Dictionary_has d ''Symbols'' then Dictionary_getString d ''Symbols'' else Inr ''GBPUSD'')
     = Inr (case d ''Symbols'' of None \<Rightarrow> ''GBPUSD'' | Some v \<Rightarrow> v)"
  by (simp add: Dictionary_has_def Dictionary_getString_def split: option.splits)

lemma sendSubscribe_sends:
  assumes "settings_get (settings_m st) (sid_m st) = Inr d"
    and "sid_m st \<in> set (sessions st)"
  shows "sendSubscribe st =
           (st\<lparr>calls := calls st @ [SendToTarget (spec_subscription (configured_symbols d)) (sid_m st)]\<rparr>,
            None)"
  using assms
  by (simp add: sendSubscribe_def symbols_raw sendToTarget_def subscribe_request_spec
      configured_symbols_def splitCSV_nonempty_fields)

lemma sendUnsubscribeAll_sends:
  assumes "settings_get (settings_m st) (sid_m st) = Inr d"
    and "sid_m st \<in> set (sessions st)"
  shows "sendUnsubscribeAll st =
           (st\<lparr>calls := calls st @ [SendToTarget (spec_unsubscription (configured_symbols d)) (sid_m st)]\<rparr>,
            None)"
  using assms
  by (simp add: sendUnsubscribeAll_def symbols_raw sendToTarget_def unsubscribe_request_spec
      configured_symbols_def splitCSV_nonempty_fields)

lemma field_or_empty_eq:
  "field_or_empty msg tag = Inr (case body msg tag of None \<Rightarrow> [] | Some v \<Rightarrow> v)"
  by (simp add: field_or_empty_def isSetField_def getField_def split: option.splits)

section \<open>The snapshot handler\<close>

lemma print_print: "print a (print b st) = print (b @ a) st"
  by (simp add: print_def)

lemma print_Nil: "print [] st = st"
  by (simp add: print_def)

lemma join_bar_Cons: "join_bar (r # rs) = r @ (if rs = [] then [] else '' | '' @ join_bar rs)"
  by (cases rs) auto

lemma entry_label_first_char:
  "entry_label ts = (if first_char ts = CHR ''0'' then ''BID'' else ''ASK'')"
  by (simp add: first_char_def entry_label_def split: list.splits)

lemma snapshot_entry_text:
  assumes "groups snap FIELD_NoMDEntries = gs" and "k < length gs"
    and "entry_text rt (gs ! k) = Some r"
  shows "snapshot_entry rt snap n (int k + 1) st =
           (print (r @ (if int k + 1 < n then '' | '' else [])) st, None)"
  using assms
  by (auto simp: snapshot_entry_def getGroup_def getField_def entry_text_def
      entry_label_first_char split: option.splits sum.splits)

lemma snapshot_loop_records:
  assumes "groups snap FIELD_NoMDEntries = gs"
  shows "k \<le> length gs \<Longrightarrow> map (entry_text rt) (drop k gs) = map Some recs \<Longrightarrow>
         snapshot_loop rt snap (int (length gs)) (int k + 1) st = (print (join_bar recs) st, None)"
proof (induction recs arbitrary: k st)
  case Nil
  then have "k = length gs" by simp
  then show ?case by (simp add: snapshot_loop.simps print_Nil)
next
  case (Cons r recs)
  from Cons.prems have lt: "k < length gs" by (cases "k < length gs") auto
  then have d: "drop k gs = gs ! k # drop (Suc k) gs" by (simp add: Cons_nth_drop_Suc)
  with Cons.prems have r: "entry_text rt (gs ! k) = Some r"
    and rest: "map (entry_text rt) (drop (Suc k) gs) = map Some recs" by simp_all
  have len: "length recs = length gs - Suc k"
    using rest by (metis length_drop length_map)
  define sep where "sep = (if recs \<noteq> [] then '' | '' else [])"
  have "(int k + 1 < int (length gs)) = (recs \<noteq> [])"
    using len lt by (cases recs) auto
  then have step: "snapshot_entry rt snap (int (length gs)) (int k + 1) st = (print (r @ sep) st, None)"
    using snapshot_entry_text [OF assms lt r, of "int (length gs)" st] by (simp add: sep_def)
  have le: "int k + 1 \<le> int (length gs)" using lt by simp
  have unroll: "snapshot_loop rt snap (int (length gs)) (int k + 1) st
                  = snapshot_loop rt snap (int (length gs)) (int k + 1 + 1) (print (r @ sep) st)"
    by (subst snapshot_loop.simps) (simp only: le step if_True prod.case option.case)
  have idx: "int k + 1 + 1 = int (Suc k) + 1" by simp
  have "Suc k \<le> length gs" using lt by simp
  from Cons.IH [OF this rest]
  have IH: "snapshot_loop rt snap (int (length gs)) (int (Suc k) + 1) (print (r @ sep) st)
              = (print (join_bar recs) (print (r @ sep) st), None)" .
  have joined: "(r @ sep) @ join_bar recs = join_bar (r # recs)"
    by (simp add: sep_def join_bar_Cons)
  show ?case
    by (simp only: unroll idx IH print_print joined)
qed

lemma snapshot_handler_output:
  assumes "body snap FIELD_Symbol = Some symbol"
    and "body snap FIELD_NoMDEntries = Some cnt"
    and "IntConvertor_convert cnt = Some (int (length (groups snap FIELD_NoMDEntries)))"
    and "map (entry_text rt) (groups snap FIELD_NoMDEntries) = map Some recs"
  shows "onMessage_MarketDataSnapshotFullRefresh rt snap sid st =
           (st\<lparr>cout := cout st @ ''W: '' @ symbol @ '' entries=''
                    @ string_of_int (int (length recs)) @ '' :: '' @ join_bar recs @ [newline],
               firstData_m := True\<rparr>, None)"
proof -
  let ?gs = "groups snap FIELD_NoMDEntries"
  have len: "length recs = length ?gs"
    using assms(4) by (metis length_map)
  have "map (entry_text rt) (drop 0 ?gs) = map Some recs" using assms(4) by simp
  from snapshot_loop_records [OF refl _ this]
  have loop: "\<And>st'. snapshot_loop rt snap (int (length recs)) 1 st' = (print (join_bar recs) st', None)"
    by (simp add: len)
  have "onMessage_MarketDataSnapshotFullRefresh rt snap sid st =
          ((print [newline] (print (join_bar recs)
             (print (''W: '' @ symbol @ '' entries='' @ string_of_int (int (length recs)) @ '' :: '') st)))
           \<lparr>firstData_m := True\<rparr>, None)"
    by (simp add: onMessage_MarketDataSnapshotFullRefresh_def getField_def assms(1,2,3) loop
        len [symmetric])
  then show ?thesis
    by (simp add: print_def)
qed

lemma snapshot_entry_prints:
  "snapshot_entry rt snap n i st = (st', e) \<Longrightarrow> \<exists>txt. st' = print txt st"
  by (auto simp: snapshot_entry_def print_def split: sum.splits intro: exI [of _ "[]"])

lemma snapshot_loop_prints:
  "snapshot_loop rt snap n i st = (st', e) \<Longrightarrow> \<exists>txt. st' = print txt st"
proof (induction rt snap n i st arbitrary: st' e rule: snapshot_loop.induct)
  case (1 rt snap n i st)
  show ?case
  proof (cases "i \<le> n")
    case False
    with "1.prems" have "st' = print [] st"
      by (simp add: snapshot_loop.simps print_Nil)
    then show ?thesis by blast
  next
    case True
    obtain st1 e1 where ent: "snapshot_entry rt snap n i st = (st1, e1)"
      by (cases "snapshot_entry rt snap n i st") auto
    then obtain t1 where t1: "st1 = print t1 st"
      using snapshot_entry_prints by blast
    show ?thesis
    proof (cases e1)
      case (Some x)
      with "1.prems" True ent have "st' = st1"
        by (subst (asm) snapshot_loop.simps) simp
      with t1 show ?thesis by blast
    next
      case None
      with "1.prems" True ent have "snapshot_loop rt snap n (i + 1) st1 = (st', e)"
        by (subst (asm) snapshot_loop.simps) simp
      from "1.IH" [OF True ent [symmetric] _ this] None
      obtain t2 where "st' = print t2 st1" by auto
      with t1 have "st' = print (t1 @ t2) st" by (simp add: print_print)
      then show ?thesis by blast
    qed
  qed
qed

lemma snapshot_handler_effect:
  "onMessage_MarketDataSnapshotFullRefresh rt snap sid st = (st', e) \<Longrightarrow>
     \<exists>txt. st' = (print txt st)\<lparr>firstData_m := firstData_m st \<or> e = None\<rparr>"
proof -
  assume h: "onMessage_MarketDataSnapshotFullRefresh rt snap sid st = (st', e)"
  have same: "st = (print [] st)\<lparr>firstData_m := firstData_m st \<or> Some x = None\<rparr>" for x :: exn
    by (simp add: print_def)
  show ?thesis
  proof (cases "getField (body snap) FIELD_Symbol")
    case (Inl a)
    with h same show ?thesis
      by (auto simp: onMessage_MarketDataSnapshotFullRefresh_def)
  next
    case (Inr symbol)
    show ?thesis
    proof (cases "getField (body snap) FIELD_NoMDEntries")
      case (Inl a)
      with h Inr same show ?thesis
        by (auto simp: onMessage_MarketDataSnapshotFullRefresh_def)
    next
      case cnt: (Inr cnt)
      show ?thesis
      proof (cases "IntConvertor_convert cnt")
        case None
        with h Inr cnt same show ?thesis
          by (auto simp: onMessage_MarketDataSnapshotFullRefresh_def)
      next
        case (Some n)
        let ?st0 = "print (''W: '' @ symbol @ '' entries='' @ string_of_int n @ '' :: '') st"
        obtain st1 e1 where l: "snapshot_loop rt snap n 1 ?st0 = (st1, e1)"
          by (cases "snapshot_loop rt snap n 1 ?st0") auto
        then obtain t where t: "st1 = print t ?st0"
          using snapshot_loop_prints by blast
        show ?thesis
        proof (cases e1)
          case None
          with h Inr cnt Some l have "st' = (print [newline] st1)\<lparr>firstData_m := True\<rparr>" "e = None"
            by (auto simp: onMessage_MarketDataSnapshotFullRefresh_def)
          with t show ?thesis by (auto simp: print_def)
        next
          case (Some x)
          with h Inr cnt \<open>IntConvertor_convert cnt = Some n\<close> l have "st' = st1" "e = Some x"
            by (auto simp: onMessage_MarketDataSnapshotFullRefresh_def)
          with t show ?thesis by (auto simp: print_def)
        qed
      qed
    qed
  qed
qed

lemma entry_texts_from_fields:
  "map (\<lambda>g. g FIELD_MDEntryType) gs = map Some types \<Longrightarrow>
   map (\<lambda>g. case g FIELD_MDEntryPx of None \<Rightarrow> None
            | Some ps \<Rightarrow> (case stod rt ps of Inl e \<Rightarrow> None | Inr px \<Rightarrow> Some (put_double rt px))) gs
     = map Some prices \<Longrightarrow>
   map (entry_text rt) gs
     = map Some (map2 (\<lambda>ts p. (if first_char ts = CHR ''0'' then ''BID'' else ''ASK'') @ ''='' @ p)
                   types prices)"
proof (induction gs arbitrary: types prices)
  case Nil
  then show ?case by simp
next
  case (Cons g gs)
  then obtain ts types' p prices' where
    "types = ts # types'" "prices = p # prices'" by (cases types; cases prices) auto
  with Cons show ?case
    by (auto simp: entry_text_def entry_label_first_char split: option.splits sum.splits)
qed

section \<open>What the callbacks leave alone\<close>

lemma sendSubscribe_frame:
  "sid_m (fst (sendSubscribe st)) = sid_m st \<and> settings_m (fst (sendSubscribe st)) = settings_m st
   \<and> sessions (fst (sendSubscribe st)) = sessions st
   \<and> firstData_m (fst (sendSubscribe st)) = firstData_m st"
  by (simp add: sendSubscribe_def sendToTarget_def split: sum.splits)

lemma reject_frame:
  "sid_m (fst (onMessage_MarketDataRequestReject msg sid st)) = sid_m st
   \<and> settings_m (fst (onMessage_MarketDataRequestReject msg sid st)) = settings_m st
   \<and> sessions (fst (onMessage_MarketDataRequestReject msg sid st)) = sessions st
   \<and> firstData_m (fst (onMessage_MarketDataRequestReject msg sid st)) = firstData_m st"
  by (simp add: onMessage_MarketDataRequestReject_def field_or_empty_eq print_def)

lemma snapshot_frame:
  "sid_m (fst (onMessage_MarketDataSnapshotFullRefresh rt msg sid st)) = sid_m st
   \<and> settings_m (fst (onMessage_MarketDataSnapshotFullRefresh rt msg sid st)) = settings_m st
   \<and> sessions (fst (onMessage_MarketDataSnapshotFullRefresh rt msg sid st)) = sessions st
   \<and> calls (fst (onMessage_MarketDataSnapshotFullRefresh rt msg sid st)) = calls st
   \<and> (firstData_m st \<longrightarrow> firstData_m (fst (onMessage_MarketDataSnapshotFullRefresh rt msg sid st)))"
proof -
  obtain st' e where h: "onMessage_MarketDataSnapshotFullRefresh rt msg sid st = (st', e)"
    by (cases "onMessage_MarketDataSnapshotFullRefresh rt msg sid st") auto
  from snapshot_handler_effect [OF h] obtain tx where
    "st' = (print tx st)\<lparr>firstData_m := firstData_m st \<or> e = None\<rparr>" by blast
  with h show ?thesis by (simp add: print_def)
qed

lemma fst_propagates: "fst (propagates r) = fst r"
  by (cases r) (simp add: propagates_def split: option.splits)

lemma propagates_alive: "snd (propagates r) \<noteq> Terminates"
  by (cases r) (simp add: propagates_def split: option.splits)

lemma fst_exception_specification: "fst (exception_specification listed r) = fst r"
  by (cases r) (simp add: exception_specification_def split: option.splits)

lemma crack_frame:
  "sid_m (fst (crack rt msg sid st)) = sid_m st
   \<and> settings_m (fst (crack rt msg sid st)) = settings_m st
   \<and> sessions (fst (crack rt msg sid st)) = sessions st
   \<and> (firstData_m st \<longrightarrow> firstData_m (fst (crack rt msg sid st)))"
  using reject_frame [of msg sid st] snapshot_frame [of rt msg sid st]
  by (simp add: crack_def split: sum.splits)

lemma fromApp_frame:
  "sid_m (fst (fromApp rt msg sid st)) = sid_m st
   \<and> settings_m (fst (fromApp rt msg sid st)) = settings_m st
   \<and> sessions (fst (fromApp rt msg sid st)) = sessions st
   \<and> (firstData_m st \<longrightarrow> firstData_m (fst (fromApp rt msg sid st)))"
  using crack_frame [of rt msg sid st]
  by (simp add: fromApp_def fst_exception_specification)

lemma deliver_frame:
  "settings_m (fst (deliver rt e st)) = settings_m st
   \<and> sessions (fst (deliver rt e st)) = sessions st
   \<and> sid_m (fst (deliver rt e st)) = (case e of OnCreate sid \<Rightarrow> sid | _ \<Rightarrow> sid_m st)
   \<and> (firstData_m st \<longrightarrow> firstData_m (fst (deliver rt e st)))"
proof (cases e)
  case (OnLogon sid)
  then show ?thesis
    using sendSubscribe_frame [of "print (''Logon: '' @ SessionID_toString sid @ [newline]) st"]
    by (simp add: onLogon_def print_def fst_propagates)
next
  case (FromApp msg sid)
  then show ?thesis using fromApp_frame [of rt msg sid st] by simp
qed (simp_all add: onCreate_def onLogout_def print_def fromAdmin_def toApp_def fst_propagates)

lemma run_worker_firstData:
  "firstData_m st \<Longrightarrow> run_worker rt es st = Inr st' \<Longrightarrow> firstData_m st'"
proof (induction es arbitrary: st)
  case Nil
  then show ?case by simp
next
  case (Cons e es)
  obtain st1 c where d: "deliver rt e st = (st1, c)" by (cases "deliver rt e st")
  with Cons.prems(2) have "run_worker rt es st1 = Inr st'"
    by (cases c) simp_all
  moreover have "firstData_m st1" using deliver_frame [of rt e st] d Cons.prems(1) by simp
  ultimately show ?case by (rule Cons.IH [rotated])
qed

lemma run_worker_frame:
  "run_worker rt es st = Inr st' \<Longrightarrow>
     settings_m st' = settings_m st \<and> sessions st' = sessions st"
proof (induction es arbitrary: st)
  case Nil
  then show ?case by simp
next
  case (Cons e es)
  obtain st1 c where d: "deliver rt e st = (st1, c)" by (cases "deliver rt e st")
  with Cons.prems have "run_worker rt es st1 = Inr st'"
    by (cases c) simp_all
  from Cons.IH [OF this] deliver_frame [of rt e st] d show ?case by simp
qed

lemma run_worker_Cons:
  "snd (deliver rt e st) \<noteq> Terminates \<Longrightarrow>
     run_worker rt (e # es) st = run_worker rt es (fst (deliver rt e st))"
  by (cases "deliver rt e st"; cases "snd (deliver rt e st)") auto

lemma wait_loop_step:
  "\<not> firstData_m st \<Longrightarrow> int u < ms \<Longrightarrow> snd (deliver rt e st) \<noteq> Terminates \<Longrightarrow>
     wait_loop rt ms now ((u, e) # evs) st = wait_loop rt ms (max now u) evs (fst (deliver rt e st))"
  by (cases "deliver rt e st"; cases "snd (deliver rt e st)") auto

lemma wait_loop_aborts:
  "\<not> firstData_m st \<Longrightarrow> int u < ms \<Longrightarrow> snd (deliver rt e st) = Terminates \<Longrightarrow>
     wait_loop rt ms now ((u, e) # evs) st = Inl (fst (deliver rt e st))"
  by (cases "deliver rt e st") auto

lemma wait_loop_result:
  "wait_loop rt ms now evs st = Inr (ok, t, rest, st') \<Longrightarrow>
     ok = firstData_m st' \<and> (now \<le> nat ms \<longrightarrow> t \<le> nat ms) \<and> now \<le> t
     \<and> (now \<le> nat ms \<longrightarrow> \<not> ok \<longrightarrow> t = nat ms)
     \<and> (\<exists>done. evs = done @ rest \<and> run_worker rt (map snd done) st = Inr st'
           \<and> (\<forall>(u, e) \<in> set done. int u < ms))"
proof (induction evs arbitrary: now st)
  case Nil
  then show ?case by (auto split: if_splits)
next
  case (Cons a evs)
  obtain u e where a: "a = (u, e)" by (cases a)
  show ?case
  proof (cases "firstData_m st \<or> \<not> int u < ms")
    case True
    with Cons.prems a show ?thesis by (auto split: if_splits)
  next
    case False
    show ?thesis
    proof (cases "snd (deliver rt e st) = Terminates")
      case True
      with False have "wait_loop rt ms now ((u, e) # evs) st = Inl (fst (deliver rt e st))"
        by (intro wait_loop_aborts) simp_all
      with Cons.prems a show ?thesis by simp
    next
      case alive: False
      with False have "wait_loop rt ms now ((u, e) # evs) st
          = wait_loop rt ms (max now u) evs (fst (deliver rt e st))"
        by (intro wait_loop_step) simp_all
      with Cons.prems a
      have "wait_loop rt ms (max now u) evs (fst (deliver rt e st)) = Inr (ok, t, rest, st')"
        by simp
      from Cons.IH [OF this] obtain done' where
        1: "ok = firstData_m st'" "max now u \<le> nat ms \<longrightarrow> t \<le> nat ms" "max now u \<le> t"
          "max now u \<le> nat ms \<longrightarrow> \<not> ok \<longrightarrow> t = nat ms"
        and 2: "evs = done' @ rest" "run_worker rt (map snd done') (fst (deliver rt e st)) = Inr st'"
          "\<forall>(u, e) \<in> set done'. int u < ms"
        by blast
      have "run_worker rt (e # map snd done') st = Inr st'"
        using run_worker_Cons [OF alive, of "map snd done'"] 2(2) by simp
      with 2 a False have "a # evs = (a # done') @ rest
          \<and> run_worker rt (map snd (a # done')) st = Inr st'
          \<and> (\<forall>(u, e) \<in> set (a # done'). int u < ms)" by (simp del: run_worker.simps)
      moreover from 1 False have "ok = firstData_m st' \<and> (now \<le> nat ms \<longrightarrow> t \<le> nat ms) \<and> now \<le> t
          \<and> (now \<le> nat ms \<longrightarrow> \<not> ok \<longrightarrow> t = nat ms)"
        by auto
      ultimately show ?thesis by blast
    qed
  qed
qed

lemma deliver_no_snapshot:
  "\<not> is_snapshot_event e \<Longrightarrow>
     firstData_m (fst (deliver rt e st)) = firstData_m st \<and> snd (deliver rt e st) \<noteq> Terminates"
proof (cases e)
  case (OnLogon sid)
  then show ?thesis
    using sendSubscribe_frame [of "print (''Logon: '' @ SessionID_toString sid @ [newline]) st"]
    by (simp add: onLogon_def print_def fst_propagates propagates_alive)
next
  case (FromApp msg sid)
  assume n: "\<not> is_snapshot_event e"
  have rej: "snd (onMessage_MarketDataRequestReject msg sid st) = None"
    by (simp add: onMessage_MarketDataRequestReject_def field_or_empty_eq)
  from n FromApp have
    "crack rt msg sid st = onMessage_MarketDataRequestReject msg sid st
     \<or> (\<exists>x. crack rt msg sid st = (st, Some x) \<and> fromApp_lists x)"
    by (auto simp: is_snapshot_event_def crack_def getField_def fromApp_lists_def
        split: option.splits)
  then show ?thesis
  proof
    assume c: "crack rt msg sid st = onMessage_MarketDataRequestReject msg sid st"
    obtain st1 where "onMessage_MarketDataRequestReject msg sid st = (st1, None)"
      using rej by (cases "onMessage_MarketDataRequestReject msg sid st") auto
    with c FromApp reject_frame [of msg sid st] show ?thesis
      by (simp add: fromApp_def exception_specification_def)
  next
    assume "\<exists>x. crack rt msg sid st = (st, Some x) \<and> fromApp_lists x"
    with FromApp show ?thesis
      by (auto simp: fromApp_def exception_specification_def)
  qed
qed (simp_all add: onCreate_def onLogout_def print_def fromAdmin_def toApp_def fst_propagates
      propagates_alive)

lemma wait_loop_negative:
  "\<not> firstData_m st \<Longrightarrow> (\<forall>(u, e) \<in> set evs. int u < ms \<longrightarrow> \<not> is_snapshot_event e) \<Longrightarrow>
     \<exists>t rest st'. wait_loop rt ms now evs st = Inr (False, t, rest, st')"
proof (induction evs arbitrary: now st)
  case Nil
  then show ?case by simp
next
  case (Cons a evs)
  obtain u e where a: "a = (u, e)" by (cases a)
  show ?case
  proof (cases "int u < ms")
    case False
    with Cons.prems a show ?thesis by simp
  next
    case True
    with Cons.prems a have "\<not> is_snapshot_event e" by auto
    from deliver_no_snapshot [OF this, of rt st]
    have f: "\<not> firstData_m (fst (deliver rt e st))" and al: "snd (deliver rt e st) \<noteq> Terminates"
      using Cons.prems(1) by simp_all
    have "\<forall>(u, e) \<in> set evs. int u < ms \<longrightarrow> \<not> is_snapshot_event e"
      using Cons.prems(2) by auto
    from Cons.IH [OF f this, of "max now u"]
      wait_loop_step [OF Cons.prems(1) True al, of now evs] a
    show ?thesis by simp
  qed
qed

lemma recorded_session_okD:
  "recorded_session_ok st \<Longrightarrow>
     (\<exists>d. settings_get (settings_m st) (sid_m st) = Inr d) \<and> sid_m st \<in> set (sessions st)"
  by (auto simp: recorded_session_ok_def settings_get_def)

lemma initiator_new_frame:
  "settings_m (initiator_new sids st) = settings_m st
   \<and> sessions (initiator_new sids st) = sessions st @ sids
   \<and> sid_m (initiator_new sids st) = (if sids = [] then sid_m st else last sids)"
  by (induction sids arbitrary: st) (auto simp: initiator_new_def onCreate_def)

lemma initiator_new_ok:
  assumes "sids \<noteq> []" and "set sids \<subseteq> set (getSessions settings)"
  shows "recorded_session_ok (initiator_new sids (App_new settings st))"
proof -
  have "last sids \<in> set sids" using assms(1) by simp
  with assms(2) have "last sids \<in> fst ` set settings" by (auto simp: getSessions_def)
  then have "map_of settings (last sids) \<noteq> None"
    by (simp add: map_of_eq_None_iff)
  with assms(1) \<open>last sids \<in> set sids\<close> show ?thesis
    by (simp add: recorded_session_ok_def initiator_new_frame App_new_def)
qed

lemma deliver_ok:
  "recorded_session_ok st \<Longrightarrow> (\<forall>sid. e \<noteq> OnCreate sid) \<Longrightarrow>
     recorded_session_ok (fst (deliver rt e st))"
  using deliver_frame [of rt e st]
  by (cases e) (auto simp: recorded_session_ok_def)

lemma run_worker_ok:
  "recorded_session_ok st \<Longrightarrow> (\<forall>e \<in> set es. \<forall>sid. e \<noteq> OnCreate sid) \<Longrightarrow>
     run_worker rt es st = Inr st' \<Longrightarrow> recorded_session_ok st'"
proof (induction es arbitrary: st)
  case Nil
  then show ?case by simp
next
  case (Cons e es)
  obtain st1 c where d: "deliver rt e st = (st1, c)" by (cases "deliver rt e st")
  with Cons.prems(3) have r: "run_worker rt es st1 = Inr st'"
    by (cases c) simp_all
  have "recorded_session_ok st1"
    using deliver_ok [of st e rt] Cons.prems(1,2) d by simp
  from Cons.IH [OF this _ r] Cons.prems(2) show ?case by simp
qed

lemma run_worker_alive:
  "(\<forall>e \<in> set es. \<forall>st. snd (deliver rt e st) \<noteq> Terminates) \<Longrightarrow>
     \<exists>st'. run_worker rt es st = Inr st'"
proof (induction es arbitrary: st)
  case Nil
  then show ?case by simp
next
  case (Cons e es)
  then have al: "snd (deliver rt e st) \<noteq> Terminates" by simp
  from Cons.IH [of "fst (deliver rt e st)"] Cons.prems run_worker_Cons [OF al, of es]
  show ?case by simp
qed

lemma wait_loop_alive:
  "(\<forall>(u, e) \<in> set evs. \<forall>st. snd (deliver rt e st) \<noteq> Terminates) \<Longrightarrow>
     \<exists>ok t rest st'. wait_loop rt ms now evs st = Inr (ok, t, rest, st')"
proof (induction evs arbitrary: now st)
  case Nil
  show ?case by (cases "firstData_m st") auto
next
  case (Cons a evs)
  obtain u e where a: "a = (u, e)" by (cases a)
  show ?case
  proof (cases "firstData_m st \<or> \<not> int u < ms")
    case True
    with a show ?thesis by (cases "firstData_m st") auto
  next
    case False
    from Cons.prems a have al: "snd (deliver rt e st) \<noteq> Terminates" by simp
    have "\<forall>(u, e) \<in> set evs. \<forall>st. snd (deliver rt e st) \<noteq> Terminates"
      using Cons.prems by simp
    from Cons.IH [OF this, of "max now u" "fst (deliver rt e st)"]
      wait_loop_step [of st u ms rt e now evs] False al a
    show ?thesis by simp
  qed
qed

text \<open>
  \<open>toAdmin\<close> returns whenever the message has its type and the recorded session is one of
  the settings': the two things the engine sees to.
\<close>

lemma toAdmin_returns:
  "recorded_session_ok st \<Longrightarrow> header msg FIELD_MsgType = Some mt \<Longrightarrow> toAdmin st msg sid \<noteq> None"
  by (auto simp: recorded_session_ok_def toAdmin_def getField_def settings_get_def
      set_if_configured_def Dictionary_has_def Dictionary_getString_def split: option.splits)

lemma client_body_clean:
  assumes "read_settings w cfg = Inr settings"
    and "create_sessions w settings = Inr sids"
    and "getSessions settings = s # others"
    and "s \<in> set sids" and "set sids \<subseteq> set (getSessions settings)"
    and "start_raises w = None"
    and "\<forall>(t, e) \<in> set (worker w). \<forall>sid. e \<noteq> OnCreate sid"
    and "\<forall>(t, e) \<in> set (worker w). \<forall>st. snd (deliver rt e st) \<noteq> Terminates"
  shows "\<exists>st d. recorded_session_ok st \<and> settings_m st = settings
           \<and> settings_get settings (sid_m st) = Inr d
           \<and> client_body rt w cfg process_start
               = (st\<lparr>calls := calls st @
                      [SendToTarget (spec_unsubscription (configured_symbols d)) (sid_m st),
                       SessionLogout s ''Client exit'', SleepMs 300, InitiatorStop]\<rparr>, Returns)"
proof -
  let ?st0 = "engine_call InitiatorStart (initiator_new sids (App_new settings process_start))"
  have ne: "sids \<noteq> []" using assms(4) by auto
  have ok0: "recorded_session_ok ?st0"
    using initiator_new_ok [OF ne assms(5), of process_start]
    by (simp add: recorded_session_ok_def engine_call_def)
  have s0: "settings_m ?st0 = settings" "sessions ?st0 = sids"
    by (simp_all add: engine_call_def initiator_new_frame App_new_def process_start_def)
  obtain ok t rest st1 where wl: "wait_loop rt 60000 0 (worker w) ?st0 = Inr (ok, t, rest, st1)"
    using wait_loop_alive [OF assms(8), of 60000 0 ?st0] by blast
  then have w: "waitFirstDataMs rt 60000 (worker w) ?st0 = Inr (ok, t, rest, st1)"
    by (simp add: waitFirstDataMs_def)
  from wait_loop_result [OF wl] obtain done' where
    d: "worker w = done' @ rest" "run_worker rt (map snd done') ?st0 = Inr st1" by blast
  have nc: "\<forall>e \<in> set (map snd done'). \<forall>sid. e \<noteq> OnCreate sid"
    "\<forall>e \<in> set (map snd rest). \<forall>sid. e \<noteq> OnCreate sid"
    using assms(7) d(1) by fastforce+
  have al: "\<forall>e \<in> set (map snd rest). \<forall>st. snd (deliver rt e st) \<noteq> Terminates"
    using assms(8) d(1) by fastforce
  have ok1: "recorded_session_ok st1"
    by (rule run_worker_ok [OF ok0 nc(1) d(2)])
  have s1: "settings_m st1 = settings" "sessions st1 = sids"
    using s0 run_worker_frame [OF d(2)] by simp_all
  obtain st2 where r2: "run_worker rt (map snd rest) (print running_banner st1) = Inr st2"
    using run_worker_alive [OF al] by blast
  have "recorded_session_ok (print running_banner st1)"
    using ok1 by (simp add: recorded_session_ok_def print_def)
  then have ok2: "recorded_session_ok st2"
    by (rule run_worker_ok [OF _ nc(2) r2])
  have s2: "settings_m st2 = settings" "sessions st2 = sids"
    using s1 run_worker_frame [OF r2] by (simp_all add: print_def)
  from recorded_session_okD [OF ok2] obtain d where
    g: "settings_get (settings_m st2) (sid_m st2) = Inr d" and r: "sid_m st2 \<in> set (sessions st2)"
    by blast
  have sh: "shutdown settings st2 =
          (st2\<lparr>calls := calls st2 @
                      [SendToTarget (spec_unsubscription (configured_symbols d)) (sid_m st2),
                       SessionLogout s ''Client exit'', SleepMs 300, InitiatorStop]\<rparr>, None)"
    using assms(3,4) s2
    by (simp add: shutdown_def sendUnsubscribeAll_sends [OF g r] request_logout_def
        engine_call_def)
  have "client_body rt w cfg process_start = propagates (shutdown settings st2)"
    by (simp add: client_body_def assms(1,2,6) w r2)
  with sh have "client_body rt w cfg process_start
               = (st2\<lparr>calls := calls st2 @
                      [SendToTarget (spec_unsubscription (configured_symbols d)) (sid_m st2),
                       SessionLogout s ''Client exit'', SleepMs 300, InitiatorStop]\<rparr>, Returns)"
    by (simp add: propagates_def)
  moreover from g s2 have "settings_get settings (sid_m st2) = Inr d" by simp
  ultimately show ?thesis using ok2 s2(1) by blast
qed

lemma demo_run:
  "snd (client_body text_runtime demo_world ''client.cfg'' process_start) = Returns
   \<and> calls (fst (client_body text_runtime demo_world ''client.cfg'' process_start))
       = [InitiatorStart, SendToTarget (spec_subscription [''GBPUSD'']) demo_sid,
          SendToTarget (spec_unsubscription [''GBPUSD'']) demo_sid,
          SessionLogout demo_sid ''Client exit'', SleepMs 300, InitiatorStop]
   \<and> firstData_m (fst (client_body text_runtime demo_world ''client.cfg'' process_start))"
  apply (simp add: client_body_def demo_world_def process_start_def App_new_def initiator_new_def
      getSessions_def onCreate_def engine_call_def waitFirstDataMs_def onLogon_def print_def
      sendSubscribe_def settings_get_def Dictionary_has_def sendToTarget_def propagates_def
      subscribe_request_spec splitCSV_def SessionID_toString_def)
  apply (simp add: fromApp_def crack_def exception_specification_def
     demo_snapshot_def getField_def string_of_int_digits 
     onMessage_MarketDataSnapshotFullRefresh_def IntConvertor_convert_def digit_value_def
     snapshot_loop.simps snapshot_entry_def getGroup_def text_runtime_def first_char_def print_def)
  apply (simp add: shutdown_def sendUnsubscribeAll_def settings_get_def Dictionary_has_def
     sendToTarget_def unsubscribe_request_spec splitCSV_def request_logout_def getSessions_def
     engine_call_def running_banner_def propagates_def)
  done

lemma demo_deliveries:
  "deliver text_runtime (OnLogon demo_sid) (demo_state Map.empty)
     = ((demo_state Map.empty)
          \<lparr>cout := ''Logon: FIX.4.4:CLIENT->SERVER'' @ [newline],
            calls := [SendToTarget (spec_subscription [''GBPUSD'']) demo_sid]\<rparr>, Returns)"
  "snd (deliver text_runtime
          (FromApp (demo_snapshot
             [[FIELD_MDEntryType \<mapsto> ''0'', FIELD_MDEntryPx \<mapsto> ''1.2500''],
              [FIELD_MDEntryType \<mapsto> ''1'', FIELD_MDEntryPx \<mapsto> ''1.2502'']]) demo_sid) st) = Returns"
  "deliver text_runtime (FromApp (demo_snapshot [[FIELD_MDEntryType \<mapsto> ''0'']]) demo_sid) st
     = (st\<lparr>cout := cout st @ ''W: GBPUSD entries=1 :: ''\<rparr>, Throws (FieldNotFound FIELD_MDEntryPx))"
  "deliver text_runtime
     (FromApp (demo_snapshot [[FIELD_MDEntryType \<mapsto> ''0'', FIELD_MDEntryPx \<mapsto> ''abc'']]) demo_sid) st
     = (st\<lparr>cout := cout st @ ''W: GBPUSD entries=1 :: ''\<rparr>, Terminates)"
     apply (simp add: demo_state_def demo_sid_def onLogon_def print_def propagates_def
        sendSubscribe_def settings_get_def Dictionary_has_def sendToTarget_def
        subscribe_request_spec splitCSV_def SessionID_toString_def)
    apply (simp add: fromApp_def crack_def exception_specification_def
       demo_snapshot_def getField_def string_of_int_digits
       onMessage_MarketDataSnapshotFullRefresh_def IntConvertor_convert_def digit_value_def
       snapshot_loop.simps snapshot_entry_def getGroup_def text_runtime_def first_char_def print_def)
   apply (simp add: fromApp_def crack_def exception_specification_def fromApp_lists_def
       demo_snapshot_def getField_def string_of_int_digits
       onMessage_MarketDataSnapshotFullRefresh_def IntConvertor_convert_def digit_value_def
       snapshot_loop.simps snapshot_entry_def getGroup_def text_runtime_def first_char_def print_def)
  apply (simp add: fromApp_def crack_def exception_specification_def fromApp_lists_def
       demo_snapshot_def getField_def string_of_int_digits
       onMessage_MarketDataSnapshotFullRefresh_def IntConvertor_convert_def digit_value_def
       snapshot_loop.simps snapshot_entry_def getGroup_def text_runtime_def first_char_def print_def)
  done

lemma abort_run:
  "client_body text_runtime abort_world ''client.cfg'' process_start
     = (fst (client_body text_runtime abort_world ''client.cfg'' process_start), Terminates)
   \<and> calls (fst (client_body text_runtime abort_world ''client.cfg'' process_start))
       = [InitiatorStart, SendToTarget (spec_subscription [''GBPUSD'']) demo_sid]"
  apply (simp add: client_body_def abort_world_def demo_world_def process_start_def App_new_def
      initiator_new_def
      getSessions_def onCreate_def engine_call_def waitFirstDataMs_def onLogon_def print_def
      sendSubscribe_def settings_get_def Dictionary_has_def sendToTarget_def propagates_def
      subscribe_request_spec splitCSV_def SessionID_toString_def)
  apply (simp add: fromApp_def crack_def exception_specification_def fromApp_lists_def
     demo_snapshot_def getField_def string_of_int_digits 
     onMessage_MarketDataSnapshotFullRefresh_def IntConvertor_convert_def digit_value_def
     snapshot_loop.simps snapshot_entry_def getGroup_def text_runtime_def first_char_def print_def)
  done

section \<open>Claims about the requests\<close>

text \<open>
  C9. For every input string, \<open>splitCSV\<close> returns exactly the non-empty maximal
  comma-free substrings of the input, in their original order. The pieces of \<open>s\<close> at its
  commas are \<open>comma_fields s\<close>: they are comma-free, joined with commas they give \<open>s\<close>
  back, and they are the only such list; \<open>splitCSV s\<close> is that list without its empty
  members. So no element of the result is empty, whatever commas lead, trail or repeat, and
  every NoRelatedSym group of the subscribe and of the unsubscribe request built from a
  Symbols text carries a non-empty Symbol.
\<close>

theorem splitCSV_nonempty_pieces:
  "splitCSV s = filter (\<lambda>f. f \<noteq> []) (comma_fields s)
   \<and> join_commas (comma_fields s) = s
   \<and> (\<forall>f \<in> set (comma_fields s). CHR '','' \<notin> set f)
   \<and> (\<forall>fs. fs \<noteq> [] \<and> (\<forall>f \<in> set fs. CHR '','' \<notin> set f) \<and> join_commas fs = s
         \<longrightarrow> splitCSV s = filter (\<lambda>f. f \<noteq> []) fs)
   \<and> (\<forall>f \<in> set (splitCSV s). f \<noteq> [] \<and> CHR '','' \<notin> set f)
   \<and> (\<forall>g \<in> set (groups (subscribe_request s) FIELD_NoRelatedSym).
         \<exists>v. g FIELD_Symbol = Some v \<and> v \<noteq> [])
   \<and> (\<forall>g \<in> set (groups (unsubscribe_request s) FIELD_NoRelatedSym).
         \<exists>v. g FIELD_Symbol = Some v \<and> v \<noteq> [])"
proof -
  have eq: "splitCSV s = filter (\<lambda>f. f \<noteq> []) (comma_fields s)"
    by (simp add: splitCSV_nonempty_fields nonempty_fields_def)
  have free: "\<forall>f \<in> set (comma_fields s). CHR '','' \<notin> set f"
    using comma_fields_free by blast
  have uniq: "\<forall>fs. fs \<noteq> [] \<and> (\<forall>f \<in> set fs. CHR '','' \<notin> set f) \<and> join_commas fs = s
         \<longrightarrow> splitCSV s = filter (\<lambda>f. f \<noteq> []) fs"
  proof (intro allI impI)
    fix fs
    assume h: "fs \<noteq> [] \<and> (\<forall>f \<in> set fs. CHR '','' \<notin> set f) \<and> join_commas fs = s"
    then have "comma_fields (join_commas fs) = fs"
      using comma_fields_join [of fs] by blast
    with h eq show "splitCSV s = filter (\<lambda>f. f \<noteq> []) fs" by simp
  qed
  have ne: "\<forall>f \<in> set (splitCSV s). f \<noteq> [] \<and> CHR '','' \<notin> set f"
    using eq free by simp
  have sub: "\<forall>g \<in> set (groups (subscribe_request s) FIELD_NoRelatedSym).
         \<exists>v. g FIELD_Symbol = Some v \<and> v \<noteq> []"
    using ne by (auto simp: subscribe_request_spec spec_subscription_def)
  have unsub: "\<forall>g \<in> set (groups (unsubscribe_request s) FIELD_NoRelatedSym).
         \<exists>v. g FIELD_Symbol = Some v \<and> v \<noteq> []"
    using ne by (auto simp: unsubscribe_request_spec spec_unsubscription_def)
  from eq join_comma_fields [of s] free uniq ne sub unsub show ?thesis by blast
qed

text \<open>The same at the input \<open>,EURUSD,,GBPUSD,\<close>.\<close>

theorem splitCSV_nonempty_pieces_witness:
  "comma_fields '',EURUSD,,GBPUSD,'' = [[], ''EURUSD'', [], ''GBPUSD'', []]
   \<and> join_commas [[], ''EURUSD'', [], ''GBPUSD'', []] = '',EURUSD,,GBPUSD,''
   \<and> splitCSV '',EURUSD,,GBPUSD,'' = [''EURUSD'', ''GBPUSD'']
   \<and> groups (subscribe_request '',EURUSD,,GBPUSD,'') FIELD_NoRelatedSym
       = [[FIELD_Symbol \<mapsto> ''EURUSD''], [FIELD_Symbol \<mapsto> ''GBPUSD'']]
   \<and> groups (unsubscribe_request '',EURUSD,,GBPUSD,'') FIELD_NoRelatedSym
       = [[FIELD_Symbol \<mapsto> ''EURUSD''], [FIELD_Symbol \<mapsto> ''GBPUSD'']]"
proof -
  have c: "comma_fields '',EURUSD,,GBPUSD,'' = [[], ''EURUSD'', [], ''GBPUSD'', []]"
    by simp
  have j: "join_commas [[], ''EURUSD'', [], ''GBPUSD'', []] = '',EURUSD,,GBPUSD,''"
    by simp
  from splitCSV_nonempty_pieces [of "'',EURUSD,,GBPUSD,''"]
  have "splitCSV '',EURUSD,,GBPUSD,'' = filter (\<lambda>f. f \<noteq> []) (comma_fields '',EURUSD,,GBPUSD,'')"
    by blast
  with c have s: "splitCSV '',EURUSD,,GBPUSD,'' = [''EURUSD'', ''GBPUSD'']"
    by simp
  have g: "groups (subscribe_request '',EURUSD,,GBPUSD,'') FIELD_NoRelatedSym
       = [[FIELD_Symbol \<mapsto> ''EURUSD''], [FIELD_Symbol \<mapsto> ''GBPUSD'']]"
    by (simp add: subscribe_request_def s groups_addGroup MarketDataRequest_def setField_def
        FIX44_Message_def)
  have u: "groups (unsubscribe_request '',EURUSD,,GBPUSD,'') FIELD_NoRelatedSym
       = [[FIELD_Symbol \<mapsto> ''EURUSD''], [FIELD_Symbol \<mapsto> ''GBPUSD'']]"
    by (simp add: unsubscribe_request_def s groups_addGroup MarketDataRequest_def setField_def
        FIX44_Message_def)
  from c j s g u show ?thesis by blast
qed

text \<open>
  C1. For every logon event the client builds and sends exactly one MarketDataRequest:
  \<open>onLogon\<close> prints its line and appends one call to the trace, the hand-over of the
  request \<open>spec_subscription\<close> lists (35=V, 262=REQ-1, 263=1, 264=1, the entry types 0 and
  1 under 267, one Symbol group per configured symbol, in order, under 146), addressed to
  the session \<open>onCreate\<close> recorded. The engine calls \<open>onLogon\<close> for sessions it has
  created from the settings, which is what the two hypotheses say of the recorded session.
\<close>

theorem onLogon_sends_subscription:
  assumes "settings_get (settings_m st) (sid_m st) = Inr d"
    and "sid_m st \<in> set (sessions st)"
  shows "onLogon sid st =
           (st\<lparr>cout := cout st @ ''Logon: '' @ SessionID_toString sid @ [newline],
               calls := calls st
                 @ [SendToTarget (spec_subscription (configured_symbols d)) (sid_m st)]\<rparr>,
            None)"
proof -
  let ?st = "print (''Logon: '' @ SessionID_toString sid @ [newline]) st"
  have "settings_get (settings_m ?st) (sid_m ?st) = Inr d" "sid_m ?st \<in> set (sessions ?st)"
    using assms by (simp_all add: print_def)
  from sendSubscribe_sends [OF this] show ?thesis
    by (simp add: onLogon_def print_def)
qed

text \<open>The same for one session with \<open>Symbols=EURUSD,GBPUSD\<close>.\<close>

theorem onLogon_sends_subscription_witness:
  "settings_get (settings_m (demo_state [''Symbols'' \<mapsto> ''EURUSD,GBPUSD''])) (sid_m (demo_state [''Symbols'' \<mapsto> ''EURUSD,GBPUSD'']))
     = Inr [''Symbols'' \<mapsto> ''EURUSD,GBPUSD'']
   \<and> sid_m (demo_state [''Symbols'' \<mapsto> ''EURUSD,GBPUSD'']) \<in> set (sessions (demo_state [''Symbols'' \<mapsto> ''EURUSD,GBPUSD'']))
   \<and> configured_symbols [''Symbols'' \<mapsto> ''EURUSD,GBPUSD''] = [''EURUSD'', ''GBPUSD'']
   \<and> calls (fst (onLogon demo_sid (demo_state [''Symbols'' \<mapsto> ''EURUSD,GBPUSD''])))
       = [SendToTarget (spec_subscription [''EURUSD'', ''GBPUSD'']) demo_sid]"
proof -
  let ?d = "[''Symbols'' \<mapsto> ''EURUSD,GBPUSD'']"
  have a: "settings_get (settings_m (demo_state ?d)) (sid_m (demo_state ?d)) = Inr ?d"
    by (simp add: demo_state_def settings_get_def)
  have b: "sid_m (demo_state ?d) \<in> set (sessions (demo_state ?d))"
    by (simp add: demo_state_def)
  have c: "configured_symbols ?d = [''EURUSD'', ''GBPUSD'']"
    by (simp add: configured_symbols_def nonempty_fields_def)
  from onLogon_sends_subscription [OF a b, of demo_sid] a b c show ?thesis
    by (simp add: demo_state_def)
qed

text \<open>
  C8. When the session's settings have no Symbols entry, the subscribe and the unsubscribe
  request each carry exactly one NoRelatedSym group, with Symbol GBPUSD (and the count
  field 146=1).
\<close>

theorem default_symbol_GBPUSD:
  assumes "settings_get (settings_m st) (sid_m st) = Inr d"
    and "d ''Symbols'' = None"
    and "sid_m st \<in> set (sessions st)"
  shows "sendSubscribe st
           = (st\<lparr>calls := calls st @ [SendToTarget (spec_subscription [''GBPUSD'']) (sid_m st)]\<rparr>, None)
         \<and> sendUnsubscribeAll st
           = (st\<lparr>calls := calls st @ [SendToTarget (spec_unsubscription [''GBPUSD'']) (sid_m st)]\<rparr>, None)
         \<and> groups (spec_subscription [''GBPUSD'']) FIELD_NoRelatedSym = [[FIELD_Symbol \<mapsto> ''GBPUSD'']]
         \<and> body (spec_subscription [''GBPUSD'']) FIELD_NoRelatedSym = Some ''1''
         \<and> groups (spec_unsubscription [''GBPUSD'']) FIELD_NoRelatedSym = [[FIELD_Symbol \<mapsto> ''GBPUSD'']]
         \<and> body (spec_unsubscription [''GBPUSD'']) FIELD_NoRelatedSym = Some ''1''"
proof -
  have syms: "configured_symbols d = [''GBPUSD'']"
    using assms(2) by (simp add: configured_symbols_def nonempty_fields_def)
  have "groups (spec_subscription [''GBPUSD'']) FIELD_NoRelatedSym = [[FIELD_Symbol \<mapsto> ''GBPUSD'']]"
    "body (spec_subscription [''GBPUSD'']) FIELD_NoRelatedSym = Some ''1''"
    "groups (spec_unsubscription [''GBPUSD'']) FIELD_NoRelatedSym = [[FIELD_Symbol \<mapsto> ''GBPUSD'']]"
    "body (spec_unsubscription [''GBPUSD'']) FIELD_NoRelatedSym = Some ''1''"
    by (simp_all add: spec_subscription_def spec_unsubscription_def with_count_def
        string_of_int_digits)
  with sendSubscribe_sends [OF assms(1,3)] sendUnsubscribeAll_sends [OF assms(1,3)] syms
  show ?thesis by simp
qed

text \<open>The same for a session whose dictionary is empty.\<close>

theorem default_symbol_GBPUSD_witness:
  "settings_get (settings_m (demo_state Map.empty)) (sid_m (demo_state Map.empty)) = Inr Map.empty
   \<and> calls (fst (sendSubscribe (demo_state Map.empty)))
       = [SendToTarget (spec_subscription [''GBPUSD'']) demo_sid]
   \<and> calls (fst (sendUnsubscribeAll (demo_state Map.empty)))
       = [SendToTarget (spec_unsubscription [''GBPUSD'']) demo_sid]"
proof -
  have a: "settings_get (settings_m (demo_state Map.empty)) (sid_m (demo_state Map.empty)) = Inr Map.empty"
    by (simp add: demo_state_def settings_get_def)
  have b: "(Map.empty :: Dictionary) ''Symbols'' = None" by simp
  have c: "sid_m (demo_state Map.empty) \<in> set (sessions (demo_state Map.empty))"
    by (simp add: demo_state_def)
  from default_symbol_GBPUSD [OF a b c] a show ?thesis
    by (simp add: demo_state_def)
qed

section \<open>Claims about the snapshot handler\<close>

text \<open>
  C2, as amended. For every inbound MarketDataSnapshotFullRefresh that carries Symbol (55),
  whose NoMDEntries (268) is the number of its entry groups, and whose every group has an
  MDEntryType (269) and an MDEntryPx (270) that the runtime reads as a number, the handler
  prints the symbol and the count, then one record per entry in order (\<open>recs\<close>, one for
  each group), then the end of line; it sets the first-data flag and raises nothing. The
  engine calls and the other members stay as they were.
\<close>

theorem snapshot_emits_records_and_signals:
  assumes "body snap FIELD_Symbol = Some symbol"
    and "body snap FIELD_NoMDEntries = Some cnt"
    and "IntConvertor_convert cnt = Some (int (length (groups snap FIELD_NoMDEntries)))"
    and "map (entry_text rt) (groups snap FIELD_NoMDEntries) = map Some recs"
  shows "onMessage_MarketDataSnapshotFullRefresh rt snap sid st =
           (st\<lparr>cout := cout st @ ''W: '' @ symbol @ '' entries=''
                    @ string_of_int (int (length recs)) @ '' :: '' @ join_bar recs @ [newline],
               firstData_m := True\<rparr>, None)
         \<and> length recs = length (groups snap FIELD_NoMDEntries)"
  using snapshot_handler_output [OF assms] assms(4) by (metis length_map)

text \<open>The first scenario of the specification, prices kept as their text.\<close>

theorem snapshot_emits_records_and_signals_witness:
  "onMessage_MarketDataSnapshotFullRefresh text_runtime
     (demo_snapshot [[FIELD_MDEntryType \<mapsto> ''0'', FIELD_MDEntryPx \<mapsto> ''1.2500''],
                     [FIELD_MDEntryType \<mapsto> ''1'', FIELD_MDEntryPx \<mapsto> ''1.2502'']])
     demo_sid (demo_state Map.empty)
   = ((demo_state Map.empty)
        \<lparr>cout := ''W: GBPUSD entries=2 :: BID=1.2500 | ASK=1.2502'' @ [newline],
         firstData_m := True\<rparr>, None)"
proof -
  let ?gs = "[[FIELD_MDEntryType \<mapsto> ''0'', FIELD_MDEntryPx \<mapsto> ''1.2500''],
              [FIELD_MDEntryType \<mapsto> ''1'', FIELD_MDEntryPx \<mapsto> ''1.2502'']]"
  have a: "body (demo_snapshot ?gs) FIELD_Symbol = Some ''GBPUSD''"
    by (simp add: demo_snapshot_def)
  have b: "body (demo_snapshot ?gs) FIELD_NoMDEntries = Some ''2''"
    by (simp add: demo_snapshot_def string_of_int_digits)
  have c: "IntConvertor_convert ''2'' = Some (int (length (groups (demo_snapshot ?gs) FIELD_NoMDEntries)))"
    by (simp add: demo_snapshot_def IntConvertor_convert_def digit_value_def)
  have d: "map (entry_text text_runtime) (groups (demo_snapshot ?gs) FIELD_NoMDEntries)
             = map Some [''BID=1.2500'', ''ASK=1.2502'']"
    by (simp add: demo_snapshot_def entry_text_def entry_label_def text_runtime_def)
  from snapshot_emits_records_and_signals [OF a b c d, of demo_sid "demo_state Map.empty"]
  show ?thesis
    by (simp add: demo_state_def string_of_int_digits)
qed

text \<open>
  C2 as stated fails: it speaks of every inbound snapshot. An entry without MDEntryPx (the
  field is optional in a FIX 4.4 snapshot entry) makes \<open>getField\<close> raise
  \<open>FieldNotFound\<close> in the loop; the handler leaves with the first part of its line
  printed, no record for the entry and the flag still clear.
\<close>

theorem snapshot_without_price_counterexample:
  "onMessage_MarketDataSnapshotFullRefresh text_runtime
     (demo_snapshot [[FIELD_MDEntryType \<mapsto> ''0'']]) demo_sid (demo_state Map.empty)
   = ((demo_state Map.empty)\<lparr>cout := ''W: GBPUSD entries=1 :: ''\<rparr>, Some (FieldNotFound FIELD_MDEntryPx))
   \<and> firstData_m (fst (onMessage_MarketDataSnapshotFullRefresh text_runtime
     (demo_snapshot [[FIELD_MDEntryType \<mapsto> ''0'']]) demo_sid (demo_state Map.empty))) = False"
  by (simp add: onMessage_MarketDataSnapshotFullRefresh_def demo_snapshot_def getField_def
      string_of_int_digits IntConvertor_convert_def digit_value_def snapshot_loop.simps
      snapshot_entry_def getGroup_def print_def demo_state_def)

text \<open>
  C10. The handler looks at the first character of each entry's MDEntryType only: the
  record is labelled BID exactly when that character is 0 and ASK for every other value,
  the values outside 0 and 1 included. Whatever the entry types are, as long as each entry
  has one and has a price, every entry gets its record and the handler raises nothing.
\<close>

theorem snapshot_labels_by_first_char:
  assumes "body snap FIELD_Symbol = Some symbol"
    and "body snap FIELD_NoMDEntries = Some cnt"
    and "IntConvertor_convert cnt = Some (int (length (groups snap FIELD_NoMDEntries)))"
    and "map (\<lambda>g. g FIELD_MDEntryType) (groups snap FIELD_NoMDEntries) = map Some types"
    and "map (\<lambda>g. case g FIELD_MDEntryPx of None \<Rightarrow> None
            | Some ps \<Rightarrow> (case stod rt ps of Inl e \<Rightarrow> None | Inr px \<Rightarrow> Some (put_double rt px)))
           (groups snap FIELD_NoMDEntries) = map Some prices"
  shows "onMessage_MarketDataSnapshotFullRefresh rt snap sid st =
           (st\<lparr>cout := cout st @ ''W: '' @ symbol @ '' entries=''
                    @ string_of_int (int (length types)) @ '' :: ''
                    @ join_bar (map2 (\<lambda>ts p. (if first_char ts = CHR ''0'' then ''BID'' else ''ASK'')
                                             @ ''='' @ p) types prices)
                    @ [newline],
               firstData_m := True\<rparr>, None)
         \<and> length (map2 (\<lambda>ts p. (if first_char ts = CHR ''0'' then ''BID'' else ''ASK'') @ ''='' @ p)
                      types prices) = length (groups snap FIELD_NoMDEntries)"
proof -
  let ?recs = "map2 (\<lambda>ts p. (if first_char ts = CHR ''0'' then ''BID'' else ''ASK'') @ ''='' @ p)
                 types prices"
  have lt: "length types = length (groups snap FIELD_NoMDEntries)"
    using assms(4) by (metis length_map)
  have lp: "length prices = length (groups snap FIELD_NoMDEntries)"
    using assms(5) by (metis length_map)
  have len: "length ?recs = length types" using lt lp by simp
  from snapshot_handler_output [OF assms(1,2,3) entry_texts_from_fields [OF assms(4,5)], of sid st]
  show ?thesis using len lt by simp
qed

text \<open>Three entries with the types \<open>0\<close>, \<open>2\<close> and \<open>01\<close>: BID, ASK, BID.\<close>

theorem snapshot_labels_by_first_char_witness:
  "onMessage_MarketDataSnapshotFullRefresh text_runtime
     (demo_snapshot [[FIELD_MDEntryType \<mapsto> ''0'', FIELD_MDEntryPx \<mapsto> ''1.2500''],
                     [FIELD_MDEntryType \<mapsto> ''2'', FIELD_MDEntryPx \<mapsto> ''1.2501''],
                     [FIELD_MDEntryType \<mapsto> ''01'', FIELD_MDEntryPx \<mapsto> ''1.2502'']])
     demo_sid (demo_state Map.empty)
   = ((demo_state Map.empty)
        \<lparr>cout := ''W: GBPUSD entries=3 :: BID=1.2500 | ASK=1.2501 | BID=1.2502'' @ [newline],
         firstData_m := True\<rparr>, None)"
proof -
  let ?gs = "[[FIELD_MDEntryType \<mapsto> ''0'', FIELD_MDEntryPx \<mapsto> ''1.2500''],
              [FIELD_MDEntryType \<mapsto> ''2'', FIELD_MDEntryPx \<mapsto> ''1.2501''],
              [FIELD_MDEntryType \<mapsto> ''01'', FIELD_MDEntryPx \<mapsto> ''1.2502'']]"
  have s3: "string_of_int 3 = ''3''"
    by (simp add: string_of_int_def string_of_nat.simps)
  have a: "body (demo_snapshot ?gs) FIELD_Symbol = Some ''GBPUSD''"
    by (simp add: demo_snapshot_def)
  have b: "body (demo_snapshot ?gs) FIELD_NoMDEntries = Some ''3''"
    by (simp add: demo_snapshot_def s3)
  have c: "IntConvertor_convert ''3'' = Some (int (length (groups (demo_snapshot ?gs) FIELD_NoMDEntries)))"
    by (simp add: demo_snapshot_def IntConvertor_convert_def digit_value_def)
  have d: "map (\<lambda>g. g FIELD_MDEntryType) (groups (demo_snapshot ?gs) FIELD_NoMDEntries)
             = map Some [''0'', ''2'', ''01'']"
    by (simp add: demo_snapshot_def)
  have e: "map (\<lambda>g. case g FIELD_MDEntryPx of None \<Rightarrow> None
            | Some ps \<Rightarrow> (case stod text_runtime ps of Inl e \<Rightarrow> None
                          | Inr px \<Rightarrow> Some (put_double text_runtime px)))
           (groups (demo_snapshot ?gs) FIELD_NoMDEntries) = map Some [''1.2500'', ''1.2501'', ''1.2502'']"
    by (simp add: demo_snapshot_def text_runtime_def)
  from snapshot_labels_by_first_char [OF a b c d e, of demo_sid "demo_state Map.empty"]
  show ?thesis
    by (simp add: demo_state_def s3 first_char_def)
qed

section \<open>Claims about the reject handler and the admin hook\<close>

text \<open>
  C4. For every inbound MarketDataRequestReject the handler prints one diagnostic line with
  MDReqID (262), MDReqRejReason (281) and Text (58), an absent field as the empty text, and
  does nothing else: it raises nothing, the trace of engine calls is as before (no new
  MarketDataRequest, no call on the session), and the members of the application are
  untouched. \<open>fromApp\<close> takes a FIX 4.4 message of type Y to this handler and
  returns.
\<close>

theorem reject_is_reported_without_retry:
  "onMessage_MarketDataRequestReject rej sid st =
     (st\<lparr>cout := cout st @ ''MD Reject (35=Y) MDReqID=''
              @ (case body rej FIELD_MDReqID of None \<Rightarrow> [] | Some v \<Rightarrow> v)
              @ '' reason(281)='' @ (case body rej FIELD_MDReqRejReason of None \<Rightarrow> [] | Some v \<Rightarrow> v)
              @ '' text='' @ (case body rej FIELD_Text of None \<Rightarrow> [] | Some v \<Rightarrow> v)
              @ [newline]\<rparr>, None)
   \<and> calls (fst (onMessage_MarketDataRequestReject rej sid st)) = calls st
   \<and> (header rej FIELD_BeginString = Some ''FIX.4.4'' \<and> header rej FIELD_MsgType = Some ''Y''
        \<longrightarrow> crack rt rej sid st = onMessage_MarketDataRequestReject rej sid st
            \<and> fromApp rt rej sid st =
                (st\<lparr>cout := cout st @ ''MD Reject (35=Y) MDReqID=''
                   @ (case body rej FIELD_MDReqID of None \<Rightarrow> [] | Some v \<Rightarrow> v)
                   @ '' reason(281)='' @ (case body rej FIELD_MDReqRejReason of None \<Rightarrow> [] | Some v \<Rightarrow> v)
                   @ '' text='' @ (case body rej FIELD_Text of None \<Rightarrow> [] | Some v \<Rightarrow> v)
                   @ [newline]\<rparr>, Returns))"
  by (simp add: onMessage_MarketDataRequestReject_def field_or_empty_eq print_def fromApp_def
      crack_def exception_specification_def getField_def)

text \<open>The reject of the second scenario.\<close>

theorem reject_is_reported_without_retry_witness:
  "header demo_reject FIELD_BeginString = Some ''FIX.4.4''
   \<and> header demo_reject FIELD_MsgType = Some ''Y''
   \<and> fromApp text_runtime demo_reject demo_sid (demo_state Map.empty)
       = ((demo_state Map.empty)
            \<lparr>cout := ''MD Reject (35=Y) MDReqID=REQ-1 reason(281)=0 text=unknown symbol'' @ [newline]\<rparr>,
          Returns)
   \<and> calls (fst (fromApp text_runtime demo_reject demo_sid (demo_state Map.empty))) = []"
proof -
  have a: "header demo_reject FIELD_BeginString = Some ''FIX.4.4''"
    and b: "header demo_reject FIELD_MsgType = Some ''Y''"
    by (simp_all add: demo_reject_def)
  from reject_is_reported_without_retry [of demo_reject demo_sid "demo_state Map.empty" text_runtime] a b
  have "fromApp text_runtime demo_reject demo_sid (demo_state Map.empty)
       = ((demo_state Map.empty)
            \<lparr>cout := cout (demo_state Map.empty) @ ''MD Reject (35=Y) MDReqID=''
              @ (case body demo_reject FIELD_MDReqID of None \<Rightarrow> [] | Some v \<Rightarrow> v)
              @ '' reason(281)='' @ (case body demo_reject FIELD_MDReqRejReason of None \<Rightarrow> [] | Some v \<Rightarrow> v)
              @ '' text='' @ (case body demo_reject FIELD_Text of None \<Rightarrow> [] | Some v \<Rightarrow> v)
              @ [newline]\<rparr>, Returns)"
    by simp
  then have "fromApp text_runtime demo_reject demo_sid (demo_state Map.empty)
       = ((demo_state Map.empty)
            \<lparr>cout := ''MD Reject (35=Y) MDReqID=REQ-1 reason(281)=0 text=unknown symbol'' @ [newline]\<rparr>,
          Returns)"
    by (simp add: demo_reject_def demo_state_def)
  with a b show ?thesis by (simp add: demo_state_def)
qed

text \<open>
  C5. When the settings of the recorded session define Username and Password, \<open>toAdmin\<close>
  sets 553 and 554 to exactly those values on an outbound Logon (35=A) and changes nothing
  else of it; an admin message of any other type comes back as it was given, so the hook
  puts 553/554 on no other message and leaves all its fields alone.
\<close>

theorem toAdmin_injects_credentials:
  "(settings_get (settings_m st) (sid_m st) = Inr d \<and> d ''Username'' = Some u
      \<and> d ''Password'' = Some p \<and> header msg FIELD_MsgType = Some MsgType_Logon
    \<longrightarrow> toAdmin st msg sid
          = Some (msg\<lparr>body := (body msg)(FIELD_Username \<mapsto> u, FIELD_Password \<mapsto> p)\<rparr>))
   \<and> (header msg FIELD_MsgType = Some mt \<and> mt \<noteq> MsgType_Logon \<longrightarrow> toAdmin st msg sid = Some msg)"
  by (simp add: toAdmin_def getField_def set_if_configured_def Dictionary_has_def
      Dictionary_getString_def setField_def)

text \<open>A Logon and a Heartbeat, with credentials alice / s3cret.\<close>

theorem toAdmin_injects_credentials_witness:
  "toAdmin (demo_state [''Username'' \<mapsto> ''alice'', ''Password'' \<mapsto> ''s3cret'']) (demo_admin ''A'') demo_sid
     = Some ((demo_admin ''A'')\<lparr>body := [108 \<mapsto> ''30'', FIELD_Username \<mapsto> ''alice'',
                                          FIELD_Password \<mapsto> ''s3cret'']\<rparr>)
   \<and> toAdmin (demo_state [''Username'' \<mapsto> ''alice'', ''Password'' \<mapsto> ''s3cret'']) (demo_admin ''0'') demo_sid
     = Some (demo_admin ''0'')"
proof -
  let ?d = "[''Username'' \<mapsto> ''alice'', ''Password'' \<mapsto> ''s3cret'']"
  have a: "settings_get (settings_m (demo_state ?d)) (sid_m (demo_state ?d)) = Inr ?d"
    by (simp add: demo_state_def settings_get_def)
  have b: "?d ''Username'' = Some ''alice''" "?d ''Password'' = Some ''s3cret''" by simp_all
  have c: "header (demo_admin ''A'') FIELD_MsgType = Some MsgType_Logon"
    by (simp add: demo_admin_def)
  have e: "header (demo_admin ''0'') FIELD_MsgType = Some ''0''" "''0'' \<noteq> MsgType_Logon"
    by (simp_all add: demo_admin_def)
  from toAdmin_injects_credentials [where st = "demo_state ?d" and d = ?d and u = "''alice''"
      and p = "''s3cret''" and msg = "demo_admin ''A''" and sid = demo_sid] a b c
  have 1: "toAdmin (demo_state ?d) (demo_admin ''A'') demo_sid
     = Some ((demo_admin ''A'')\<lparr>body := (body (demo_admin ''A''))(FIELD_Username \<mapsto> ''alice'', FIELD_Password \<mapsto> ''s3cret'')\<rparr>)"
    by blast
  from toAdmin_injects_credentials [where st = "demo_state ?d" and msg = "demo_admin ''0''"
      and mt = "''0''" and sid = demo_sid] e
  have 2: "toAdmin (demo_state ?d) (demo_admin ''0'') demo_sid = Some (demo_admin ''0'')"
    by blast
  from 1 2 show ?thesis by (simp add: demo_admin_def)
qed

section \<open>Claims about shutdown, the first-data signal and the exit code\<close>

text \<open>
  C3. On operator-initiated shutdown (lines 127-133 of \<open>main\<close>) the client first hands
  the engine a MarketDataRequest with 263=2, the request identifier REQ-1 and the
  NoRelatedSym groups of the subscription that \<open>onLogon\<close> sent (for a state \<open>st0\<close> at
  logon with the same recorded session, settings and registered sessions), and only then
  asks the first session of the settings to log out, sleeps and stops the initiator: the
  four calls are appended to the trace in that order. The hypotheses say that the recorded
  session is defined in the settings and registered, and that the first session of the
  settings is registered.
\<close>

theorem shutdown_unsubscribes_then_logs_out:
  assumes "settings_get (settings_m st) (sid_m st) = Inr d"
    and "sid_m st \<in> set (sessions st)"
    and "getSessions settings = s # others"
    and "s \<in> set (sessions st)"
    and "settings_m st0 = settings_m st" and "sid_m st0 = sid_m st" and "sessions st0 = sessions st"
  shows "shutdown settings st =
           (st\<lparr>calls := calls st @
                  [SendToTarget (spec_unsubscription (configured_symbols d)) (sid_m st),
                   SessionLogout s ''Client exit'', SleepMs 300, InitiatorStop]\<rparr>, None)
         \<and> calls (fst (onLogon sid st0))
             = calls st0 @ [SendToTarget (spec_subscription (configured_symbols d)) (sid_m st)]
         \<and> body (spec_unsubscription (configured_symbols d)) FIELD_SubscriptionRequestType = Some ''2''
         \<and> body (spec_unsubscription (configured_symbols d)) FIELD_MDReqID = Some ''REQ-1''
         \<and> body (spec_subscription (configured_symbols d)) FIELD_MDReqID = Some ''REQ-1''
         \<and> groups (spec_unsubscription (configured_symbols d)) FIELD_NoRelatedSym
             = groups (spec_subscription (configured_symbols d)) FIELD_NoRelatedSym
         \<and> groups (spec_unsubscription (configured_symbols d)) FIELD_NoRelatedSym
             = map (\<lambda>s. [FIELD_Symbol \<mapsto> s]) (configured_symbols d)"
proof -
  have a: "shutdown settings st =
           (st\<lparr>calls := calls st @
                  [SendToTarget (spec_unsubscription (configured_symbols d)) (sid_m st),
                   SessionLogout s ''Client exit'', SleepMs 300, InitiatorStop]\<rparr>, None)"
    using assms(3,4)
    by (simp add: shutdown_def sendUnsubscribeAll_sends [OF assms(1,2)] request_logout_def
        engine_call_def)
  let ?st0 = "print (''Logon: '' @ SessionID_toString sid @ [newline]) st0"
  have "settings_get (settings_m ?st0) (sid_m ?st0) = Inr d" "sid_m ?st0 \<in> set (sessions ?st0)"
    using assms by (simp_all add: print_def)
  from sendSubscribe_sends [OF this]
  have b: "calls (fst (onLogon sid st0))
             = calls st0 @ [SendToTarget (spec_subscription (configured_symbols d)) (sid_m st)]"
    using assms(6) by (simp add: onLogon_def print_def)
  have c: "body (spec_unsubscription (configured_symbols d)) FIELD_SubscriptionRequestType = Some ''2''"
    "body (spec_unsubscription (configured_symbols d)) FIELD_MDReqID = Some ''REQ-1''"
    "body (spec_subscription (configured_symbols d)) FIELD_MDReqID = Some ''REQ-1''"
    by (simp_all add: spec_unsubscription_def spec_subscription_def with_count_def)
  have e: "groups (spec_unsubscription (configured_symbols d)) FIELD_NoRelatedSym
             = groups (spec_subscription (configured_symbols d)) FIELD_NoRelatedSym"
    "groups (spec_unsubscription (configured_symbols d)) FIELD_NoRelatedSym
             = map (\<lambda>s. [FIELD_Symbol \<mapsto> s]) (configured_symbols d)"
    by (simp_all add: spec_unsubscription_def spec_subscription_def)
  from a b c e show ?thesis by blast
qed

text \<open>The same for one session with \<open>Symbols=EURUSD,GBPUSD\<close>.\<close>

theorem shutdown_unsubscribes_then_logs_out_witness:
  "shutdown [(demo_sid, [''Symbols'' \<mapsto> ''EURUSD,GBPUSD''])]
       (demo_state [''Symbols'' \<mapsto> ''EURUSD,GBPUSD''])
     = ((demo_state [''Symbols'' \<mapsto> ''EURUSD,GBPUSD''])
          \<lparr>calls := [SendToTarget (spec_unsubscription [''EURUSD'', ''GBPUSD'']) demo_sid,
                     SessionLogout demo_sid ''Client exit'', SleepMs 300, InitiatorStop]\<rparr>, None)
   \<and> calls (fst (onLogon demo_sid (demo_state [''Symbols'' \<mapsto> ''EURUSD,GBPUSD''])))
       = [SendToTarget (spec_subscription [''EURUSD'', ''GBPUSD'']) demo_sid]"
proof -
  let ?d = "[''Symbols'' \<mapsto> ''EURUSD,GBPUSD'']"
  have a: "settings_get (settings_m (demo_state ?d)) (sid_m (demo_state ?d)) = Inr ?d"
    by (simp add: demo_state_def settings_get_def)
  have b: "sid_m (demo_state ?d) \<in> set (sessions (demo_state ?d))"
    by (simp add: demo_state_def)
  have c: "getSessions [(demo_sid, ?d)] = demo_sid # []"
    by (simp add: getSessions_def)
  have e: "demo_sid \<in> set (sessions (demo_state ?d))"
    by (simp add: demo_state_def)
  have f: "configured_symbols ?d = [''EURUSD'', ''GBPUSD'']"
    by (simp add: configured_symbols_def nonempty_fields_def)
  from shutdown_unsubscribes_then_logs_out [OF a b c e refl refl refl, of demo_sid] f
  show ?thesis by (simp add: demo_state_def)
qed

text \<open>
  C6, as amended. The first-data signal is a one-shot condition: a snapshot handled to its
  end (the handler raises nothing) sets the flag, and no callback clears it. A wait on a
  set flag returns true at once. \<open>waitFirstDataMs ms\<close>, when it returns, returns no
  later than \<open>ms\<close> milliseconds after the call, with the flag as its answer, a negative
  answer at the deadline; the state it returns in is the state the worker's callbacks
  before the deadline produced: the wait adds nothing of its own, and with no callback at
  all the state is the one it was called in. When the flag is clear at the call and no
  snapshot arrives before the deadline, the wait returns the negative answer at the
  deadline. The wait does not return only when the flag was clear and a snapshot arrived
  before the deadline whose handling terminated the process.
\<close>

theorem first_data_signal_one_shot:
  "(firstData_m st \<longrightarrow> firstData_m (fst (deliver rt e st)))
   \<and> (snd (onMessage_MarketDataSnapshotFullRefresh rt snap sid st) = None
        \<longrightarrow> firstData_m (fst (onMessage_MarketDataSnapshotFullRefresh rt snap sid st)))
   \<and> (firstData_m st \<longrightarrow> waitFirstDataMs rt ms evs st = Inr (True, 0, evs, st))
   \<and> waitFirstDataMs rt ms [] st = Inr (firstData_m st, if firstData_m st then 0 else nat ms, [], st)
   \<and> (waitFirstDataMs rt ms evs st = Inr (ok, t, rest, st') \<longrightarrow>
         t \<le> nat ms \<and> ok = firstData_m st' \<and> (\<not> ok \<longrightarrow> t = nat ms)
         \<and> (\<exists>done. evs = done @ rest \<and> run_worker rt (map snd done) st = Inr st'
               \<and> (\<forall>(u, e) \<in> set done. int u < ms)))
   \<and> (\<not> firstData_m st \<and> (\<forall>(u, e) \<in> set evs. int u < ms \<longrightarrow> \<not> is_snapshot_event e)
        \<longrightarrow> (\<exists>rest st'. waitFirstDataMs rt ms evs st = Inr (False, nat ms, rest, st')))
   \<and> (waitFirstDataMs rt ms evs st = Inl st'
        \<longrightarrow> \<not> firstData_m st \<and> (\<exists>(u, e) \<in> set evs. int u < ms \<and> is_snapshot_event e))"
proof -
  have 1: "firstData_m st \<longrightarrow> firstData_m (fst (deliver rt e st))"
    by (simp add: deliver_frame)
  have 2: "snd (onMessage_MarketDataSnapshotFullRefresh rt snap sid st) = None
        \<longrightarrow> firstData_m (fst (onMessage_MarketDataSnapshotFullRefresh rt snap sid st))"
  proof
    assume n: "snd (onMessage_MarketDataSnapshotFullRefresh rt snap sid st) = None"
    obtain st1 e1 where h: "onMessage_MarketDataSnapshotFullRefresh rt snap sid st = (st1, e1)"
      by (cases "onMessage_MarketDataSnapshotFullRefresh rt snap sid st") auto
    from snapshot_handler_effect [OF h] n h
    show "firstData_m (fst (onMessage_MarketDataSnapshotFullRefresh rt snap sid st))" by auto
  qed
  have 3: "firstData_m st \<longrightarrow> waitFirstDataMs rt ms evs st = Inr (True, 0, evs, st)"
    by (cases evs) (auto simp: waitFirstDataMs_def)
  have 4: "waitFirstDataMs rt ms [] st
             = Inr (firstData_m st, if firstData_m st then 0 else nat ms, [], st)"
    by (simp add: waitFirstDataMs_def)
  have 5: "waitFirstDataMs rt ms evs st = Inr (ok, t, rest, st') \<longrightarrow>
         t \<le> nat ms \<and> ok = firstData_m st' \<and> (\<not> ok \<longrightarrow> t = nat ms)
         \<and> (\<exists>done. evs = done @ rest \<and> run_worker rt (map snd done) st = Inr st'
               \<and> (\<forall>(u, e) \<in> set done. int u < ms))"
  proof
    assume "waitFirstDataMs rt ms evs st = Inr (ok, t, rest, st')"
    then have "wait_loop rt ms 0 evs st = Inr (ok, t, rest, st')" by (simp add: waitFirstDataMs_def)
    from wait_loop_result [OF this]
    show "t \<le> nat ms \<and> ok = firstData_m st' \<and> (\<not> ok \<longrightarrow> t = nat ms)
         \<and> (\<exists>done. evs = done @ rest \<and> run_worker rt (map snd done) st = Inr st'
               \<and> (\<forall>(u, e) \<in> set done. int u < ms))" by simp
  qed
  have 6: "\<not> firstData_m st \<and> (\<forall>(u, e) \<in> set evs. int u < ms \<longrightarrow> \<not> is_snapshot_event e)
        \<longrightarrow> (\<exists>rest st'. waitFirstDataMs rt ms evs st = Inr (False, nat ms, rest, st'))"
  proof
    assume h: "\<not> firstData_m st \<and> (\<forall>(u, e) \<in> set evs. int u < ms \<longrightarrow> \<not> is_snapshot_event e)"
    then obtain t rest st1 where r: "wait_loop rt ms 0 evs st = Inr (False, t, rest, st1)"
      using wait_loop_negative [of st evs ms rt 0] by blast
    from wait_loop_result [OF r] have "t = nat ms" by simp
    with r show "\<exists>rest st'. waitFirstDataMs rt ms evs st = Inr (False, nat ms, rest, st')"
      by (simp add: waitFirstDataMs_def)
  qed
  have 7: "waitFirstDataMs rt ms evs st = Inl st'
        \<longrightarrow> \<not> firstData_m st \<and> (\<exists>(u, e) \<in> set evs. int u < ms \<and> is_snapshot_event e)"
  proof
    assume a: "waitFirstDataMs rt ms evs st = Inl st'"
    with 3 have f: "\<not> firstData_m st" by auto
    have "\<not> (\<forall>(u, e) \<in> set evs. int u < ms \<longrightarrow> \<not> is_snapshot_event e)"
      using 6 f a by auto
    then have "\<exists>(u, e) \<in> set evs. int u < ms \<and> is_snapshot_event e" by auto
    with f show "\<not> firstData_m st \<and> (\<exists>(u, e) \<in> set evs. int u < ms \<and> is_snapshot_event e)"
      by simp
  qed
  from 1 2 3 4 5 6 7 show ?thesis by blast
qed

text \<open>
  A logon after 10 ms and a snapshot after 20 ms: a wait of 60 s returns true at 20 ms, a
  wait of 15 ms returns false at 15 ms with the logon delivered and the snapshot pending.
\<close>

theorem first_data_signal_one_shot_witness:
  "waitFirstDataMs text_runtime 60000 (worker demo_world) (demo_state Map.empty)
     = Inr (True, 20, [],
        fst (deliver text_runtime (snd (worker demo_world ! 1))
               (fst (deliver text_runtime (OnLogon demo_sid) (demo_state Map.empty)))))
   \<and> firstData_m (fst (deliver text_runtime (snd (worker demo_world ! 1))
               (fst (deliver text_runtime (OnLogon demo_sid) (demo_state Map.empty)))))
   \<and> waitFirstDataMs text_runtime 15 (worker demo_world) (demo_state Map.empty)
     = Inr (False, 15, tl (worker demo_world),
        fst (deliver text_runtime (OnLogon demo_sid) (demo_state Map.empty)))
   \<and> waitFirstDataMs text_runtime 15 [] (demo_state Map.empty)
     = Inr (False, 15, [], demo_state Map.empty)"
proof -
  let ?st = "demo_state Map.empty"
  let ?st1 = "fst (deliver text_runtime (OnLogon demo_sid) ?st)"
  let ?snap = "demo_snapshot [[FIELD_MDEntryType \<mapsto> ''0'', FIELD_MDEntryPx \<mapsto> ''1.2500''],
                        [FIELD_MDEntryType \<mapsto> ''1'', FIELD_MDEntryPx \<mapsto> ''1.2502'']]"
  have f0: "\<not> firstData_m ?st" by (simp add: demo_state_def)
  have l: "snd (deliver text_runtime (OnLogon demo_sid) ?st) = Returns"
    and f1: "\<not> firstData_m ?st1"
    using demo_deliveries(1) by (simp_all add: demo_state_def)
  have r: "snd (deliver text_runtime (FromApp ?snap demo_sid) ?st1) = Returns"
    by (rule demo_deliveries(2))
  have ok: "snd (onMessage_MarketDataSnapshotFullRefresh text_runtime ?snap demo_sid ?st1) = None"
    by (simp add: demo_snapshot_def getField_def string_of_int_digits 
     onMessage_MarketDataSnapshotFullRefresh_def IntConvertor_convert_def digit_value_def
     snapshot_loop.simps snapshot_entry_def getGroup_def text_runtime_def split: prod.splits)
  from first_data_signal_one_shot [where rt = text_runtime and snap = ?snap and sid = demo_sid
      and st = ?st1] ok
  have f2: "firstData_m (fst (onMessage_MarketDataSnapshotFullRefresh text_runtime ?snap demo_sid ?st1))"
    by blast
  have "fst (deliver text_runtime (FromApp ?snap demo_sid) ?st1)
          = fst (onMessage_MarketDataSnapshotFullRefresh text_runtime ?snap demo_sid ?st1)"
    by (simp add: fromApp_def crack_def fst_exception_specification demo_snapshot_def getField_def)
  with f2 have f2': "firstData_m (fst (deliver text_runtime (FromApp ?snap demo_sid) ?st1))"
    by simp
  from first_data_signal_one_shot [where rt = text_runtime and ms = 15 and st = ?st]
  have w0: "waitFirstDataMs text_runtime 15 [] ?st = Inr (False, 15, [], ?st)"
    using f0 by simp
  have w: "worker demo_world = [(10, OnLogon demo_sid), (20, FromApp ?snap demo_sid)]"
    by (simp add: demo_world_def)
  have s1: "wait_loop text_runtime 60000 0 [(10, OnLogon demo_sid), (20, FromApp ?snap demo_sid)] ?st
      = wait_loop text_runtime 60000 (max 0 10) [(20, FromApp ?snap demo_sid)] ?st1"
    by (rule wait_loop_step) (simp_all only: f0 l, simp_all)
  have s2: "wait_loop text_runtime 60000 (max 0 10) [(20, FromApp ?snap demo_sid)] ?st1
      = wait_loop text_runtime 60000 (max (max 0 10) 20) []
          (fst (deliver text_runtime (FromApp ?snap demo_sid) ?st1))"
    by (rule wait_loop_step) (simp_all only: f1 r, simp_all)
  have e2: "wait_loop text_runtime 60000 (max (max 0 10) 20) []
          (fst (deliver text_runtime (FromApp ?snap demo_sid) ?st1))
      = Inr (True, 20, [], fst (deliver text_runtime (FromApp ?snap demo_sid) ?st1))"
    by (simp only: wait_loop.simps f2' if_True) simp
  have a: "waitFirstDataMs text_runtime 60000 (worker demo_world) ?st
     = Inr (True, 20, [], fst (deliver text_runtime (FromApp ?snap demo_sid) ?st1))"
    by (simp only: waitFirstDataMs_def w s1 s2 e2)
  have s3: "wait_loop text_runtime 15 0 [(10, OnLogon demo_sid), (20, FromApp ?snap demo_sid)] ?st
      = wait_loop text_runtime 15 (max 0 10) [(20, FromApp ?snap demo_sid)] ?st1"
    by (rule wait_loop_step) (simp_all only: f0 l, simp_all)
  have e3: "wait_loop text_runtime 15 (max 0 10) [(20, FromApp ?snap demo_sid)] ?st1
      = Inr (False, 15, [(20, FromApp ?snap demo_sid)], ?st1)"
    by (simp only: wait_loop.simps f1 if_False) simp
  have b: "waitFirstDataMs text_runtime 15 (worker demo_world) ?st
     = Inr (False, 15, tl (worker demo_world), ?st1)"
    by (simp only: waitFirstDataMs_def w s3 e3 list.sel)
  have n: "snd (worker demo_world ! 1) = FromApp ?snap demo_sid" by (simp add: w)
  from a b w0 f2' show ?thesis by (simp only: n simp_thms)
qed

text \<open>
  C6 as stated fails: it has the signal set when the first snapshot is handled. A first
  snapshot whose entry has no MDEntryPx arrives 20 ms into a wait of 60 s. The handler
  throws \<open>FieldNotFound\<close> to the engine before it reaches the store to the flag; the
  flag stays clear and the wait answers false at the deadline, although a snapshot arrived
  and was handled within it.
\<close>

theorem first_snapshot_unhandled_counterexample:
  "is_snapshot_event (FromApp (demo_snapshot [[FIELD_MDEntryType \<mapsto> ''0'']]) demo_sid)
   \<and> deliver text_runtime (FromApp (demo_snapshot [[FIELD_MDEntryType \<mapsto> ''0'']]) demo_sid)
        (demo_state Map.empty)
      = ((demo_state Map.empty)\<lparr>cout := ''W: GBPUSD entries=1 :: ''\<rparr>,
         Throws (FieldNotFound FIELD_MDEntryPx))
   \<and> waitFirstDataMs text_runtime 60000
        [(20, FromApp (demo_snapshot [[FIELD_MDEntryType \<mapsto> ''0'']]) demo_sid)]
        (demo_state Map.empty)
      = Inr (False, 60000, [], (demo_state Map.empty)\<lparr>cout := ''W: GBPUSD entries=1 :: ''\<rparr>)"
proof -
  let ?e = "FromApp (demo_snapshot [[FIELD_MDEntryType \<mapsto> ''0'']]) demo_sid"
  have a: "is_snapshot_event ?e"
    by (simp add: is_snapshot_event_def demo_snapshot_def)
  have b: "deliver text_runtime ?e (demo_state Map.empty)
      = ((demo_state Map.empty)\<lparr>cout := ''W: GBPUSD entries=1 :: ''\<rparr>,
         Throws (FieldNotFound FIELD_MDEntryPx))"
    using demo_deliveries(3) [of "demo_state Map.empty"] by (simp add: demo_state_def)
  have f0: "\<not> firstData_m (demo_state Map.empty)" by (simp add: demo_state_def)
  have f1: "\<not> firstData_m ((demo_state Map.empty)\<lparr>cout := ''W: GBPUSD entries=1 :: ''\<rparr>)"
    by (simp add: demo_state_def)
  have al: "snd (deliver text_runtime ?e (demo_state Map.empty)) \<noteq> Terminates"
    by (simp only: b) simp
  have s1: "wait_loop text_runtime 60000 0 [(20, ?e)] (demo_state Map.empty)
      = wait_loop text_runtime 60000 (max 0 20) [] (fst (deliver text_runtime ?e (demo_state Map.empty)))"
    by (rule wait_loop_step) (simp_all only: f0 al, simp_all)
  have e1: "wait_loop text_runtime 60000 (max 0 20) []
              ((demo_state Map.empty)\<lparr>cout := ''W: GBPUSD entries=1 :: ''\<rparr>)
      = Inr (False, 60000, [], (demo_state Map.empty)\<lparr>cout := ''W: GBPUSD entries=1 :: ''\<rparr>)"
    by (simp only: wait_loop.simps f1 if_False) simp
  have c: "waitFirstDataMs text_runtime 60000 [(20, ?e)] (demo_state Map.empty)
      = Inr (False, 60000, [], (demo_state Map.empty)\<lparr>cout := ''W: GBPUSD entries=1 :: ''\<rparr>)"
    by (simp only: waitFirstDataMs_def s1 b fst_conv e1)
  from a b c show ?thesis by blast
qed

text \<open>
  C7. \<open>main\<close> returns 2 when no settings-file argument is given (with the usage line on
  the error stream), 1 when an exception leaves the body of its \<open>try\<close> block (with the
  line \<open>fatal: <what>\<close> on the error stream; a settings file that cannot be read, an
  initiator that cannot be built or started are such cases), and 0 when the body reaches
  its end, as it does whenever the settings are read, the initiator creates its sessions
  from them (the first of the settings among them), \<open>start\<close> raises nothing, and the
  worker creates no further session and delivers no callback that terminates the process.
  These are the three ways \<open>main\<close> returns; a process that \<open>std::terminate\<close> ends
  in a callback of the worker does not return from \<open>main\<close> at all and has none of the
  three exit codes.
\<close>

theorem main_exit_codes:
  "(args = [] \<longrightarrow>
      main rt w prog args
        = (Exited 2, process_start\<lparr>cerr := ''usage: '' @ prog @ '' client.cfg'' @ [newline]\<rparr>))
   \<and> (client_body rt w cfg process_start = (st, Throws e) \<longrightarrow>
        main rt w prog (cfg # others)
          = (Exited 1, st\<lparr>cerr := cerr st @ ''fatal: '' @ what rt e @ [newline]\<rparr>))
   \<and> (client_body rt w cfg process_start = (st, Returns) \<longrightarrow>
        main rt w prog (cfg # others) = (Exited 0, st))
   \<and> (client_body rt w cfg process_start = (st, Terminates) \<longrightarrow>
        main rt w prog (cfg # others) = (Aborted, st))
   \<and> (read_settings w cfg = Inl e \<longrightarrow>
        main rt w prog (cfg # others)
          = (Exited 1, process_start\<lparr>cerr := ''fatal: '' @ what rt e @ [newline]\<rparr>))
   \<and> (read_settings w cfg = Inr settings \<and> create_sessions w settings = Inl e \<longrightarrow>
        fst (main rt w prog (cfg # others)) = Exited 1
        \<and> cerr (snd (main rt w prog (cfg # others))) = ''fatal: '' @ what rt e @ [newline])
   \<and> (read_settings w cfg = Inr settings \<and> create_sessions w settings = Inr sids
        \<and> start_raises w = Some e \<longrightarrow>
        fst (main rt w prog (cfg # others)) = Exited 1
        \<and> cerr (snd (main rt w prog (cfg # others))) = ''fatal: '' @ what rt e @ [newline])
   \<and> (read_settings w cfg = Inr settings \<and> create_sessions w settings = Inr sids
        \<and> getSessions settings = s # rest \<and> s \<in> set sids
        \<and> set sids \<subseteq> set (getSessions settings) \<and> start_raises w = None
        \<and> (\<forall>(t, e) \<in> set (worker w). \<forall>sid. e \<noteq> OnCreate sid)
        \<and> (\<forall>(t, e) \<in> set (worker w). \<forall>st. snd (deliver rt e st) \<noteq> Terminates)
        \<longrightarrow> fst (main rt w prog (cfg # others)) = Exited 0)
   \<and> fst (main rt w prog args) \<in> {Exited 0, Exited 1, Exited 2, Aborted}"
proof -
  have clean: "read_settings w cfg = Inr settings \<and> create_sessions w settings = Inr sids
        \<and> getSessions settings = s # rest \<and> s \<in> set sids
        \<and> set sids \<subseteq> set (getSessions settings) \<and> start_raises w = None
        \<and> (\<forall>(t, e) \<in> set (worker w). \<forall>sid. e \<noteq> OnCreate sid)
        \<and> (\<forall>(t, e) \<in> set (worker w). \<forall>st. snd (deliver rt e st) \<noteq> Terminates)
        \<longrightarrow> fst (main rt w prog (cfg # others)) = Exited 0"
  proof
    assume h: "read_settings w cfg = Inr settings \<and> create_sessions w settings = Inr sids
        \<and> getSessions settings = s # rest \<and> s \<in> set sids
        \<and> set sids \<subseteq> set (getSessions settings) \<and> start_raises w = None
        \<and> (\<forall>(t, e) \<in> set (worker w). \<forall>sid. e \<noteq> OnCreate sid)
        \<and> (\<forall>(t, e) \<in> set (worker w). \<forall>st. snd (deliver rt e st) \<noteq> Terminates)"
    then have "\<exists>st. client_body rt w cfg process_start = (st, Returns)"
      using client_body_clean [of w cfg settings sids s rest rt] by blast
    then show "fst (main rt w prog (cfg # others)) = Exited 0"
      by (auto simp: main_def)
  qed
  have range: "fst (main rt w prog args) \<in> {Exited 0, Exited 1, Exited 2, Aborted}"
  proof (cases args)
    case Nil
    then show ?thesis by (simp add: main_def)
  next
    case (Cons a as)
    obtain st1 c where "client_body rt w (args ! 0) process_start = (st1, c)"
      by (cases "client_body rt w (args ! 0) process_start")
    with Cons show ?thesis by (cases c) (simp_all add: main_def)
  qed
  have rd: "read_settings w cfg = Inl e \<longrightarrow>
        main rt w prog (cfg # others)
          = (Exited 1, process_start\<lparr>cerr := ''fatal: '' @ what rt e @ [newline]\<rparr>)"
    by (simp add: main_def client_body_def process_start_def)
  have cr: "read_settings w cfg = Inr settings \<and> create_sessions w settings = Inl e \<longrightarrow>
        fst (main rt w prog (cfg # others)) = Exited 1
        \<and> cerr (snd (main rt w prog (cfg # others))) = ''fatal: '' @ what rt e @ [newline]"
    by (simp add: main_def client_body_def process_start_def App_new_def)
  have sr: "read_settings w cfg = Inr settings \<and> create_sessions w settings = Inr sids
        \<and> start_raises w = Some e \<longrightarrow>
        fst (main rt w prog (cfg # others)) = Exited 1
        \<and> cerr (snd (main rt w prog (cfg # others))) = ''fatal: '' @ what rt e @ [newline]"
  proof -
    have "cerr (initiator_new sids st0) = cerr st0" for st0
      by (induction sids arbitrary: st0) (simp_all add: initiator_new_def onCreate_def)
    then show ?thesis
      by (simp add: main_def client_body_def process_start_def App_new_def)
  qed
  have base: "(args = [] \<longrightarrow>
      main rt w prog args
        = (Exited 2, process_start\<lparr>cerr := ''usage: '' @ prog @ '' client.cfg'' @ [newline]\<rparr>))
   \<and> (client_body rt w cfg process_start = (st, Throws e) \<longrightarrow>
        main rt w prog (cfg # others)
          = (Exited 1, st\<lparr>cerr := cerr st @ ''fatal: '' @ what rt e @ [newline]\<rparr>))
   \<and> (client_body rt w cfg process_start = (st, Returns) \<longrightarrow>
        main rt w prog (cfg # others) = (Exited 0, st))
   \<and> (client_body rt w cfg process_start = (st, Terminates) \<longrightarrow>
        main rt w prog (cfg # others) = (Aborted, st))"
    by (simp add: main_def)
  from base rd cr sr clean range show ?thesis by blast
qed

text \<open>
  No argument; the settings file \<open>client.cfg\<close>; a missing settings file; and the run in
  which \<open>std::stod\<close> raises inside \<open>fromApp\<close>.
\<close>

theorem main_exit_codes_witness:
  "main text_runtime demo_world ''md-client'' []
     = (Exited 2, process_start\<lparr>cerr := ''usage: md-client client.cfg'' @ [newline]\<rparr>)
   \<and> fst (main text_runtime demo_world ''md-client'' [''client.cfg'']) = Exited 0
   \<and> calls (snd (main text_runtime demo_world ''md-client'' [''client.cfg'']))
       = [InitiatorStart, SendToTarget (spec_subscription [''GBPUSD'']) demo_sid,
          SendToTarget (spec_unsubscription [''GBPUSD'']) demo_sid,
          SessionLogout demo_sid ''Client exit'', SleepMs 300, InitiatorStop]
   \<and> main text_runtime demo_world ''md-client'' [''missing.cfg'']
       = (Exited 1, process_start\<lparr>cerr := ''fatal: no such file'' @ [newline]\<rparr>)
   \<and> fst (main text_runtime abort_world ''md-client'' [''client.cfg'']) = Aborted
   \<and> calls (snd (main text_runtime abort_world ''md-client'' [''client.cfg'']))
       = [InitiatorStart, SendToTarget (spec_subscription [''GBPUSD'']) demo_sid]"
proof -
  obtain st where run: "client_body text_runtime demo_world ''client.cfg'' process_start = (st, Returns)"
    using demo_run by (cases "client_body text_runtime demo_world ''client.cfg'' process_start") auto
  with demo_run have c: "calls st = [InitiatorStart, SendToTarget (spec_subscription [''GBPUSD'']) demo_sid,
          SendToTarget (spec_unsubscription [''GBPUSD'']) demo_sid,
          SessionLogout demo_sid ''Client exit'', SleepMs 300, InitiatorStop]" by simp
  obtain st' where bad: "client_body text_runtime abort_world ''client.cfg'' process_start = (st', Terminates)"
    using abort_run by blast
  with abort_run have c': "calls st' = [InitiatorStart, SendToTarget (spec_subscription [''GBPUSD'']) demo_sid]"
    by simp
  have missing: "read_settings demo_world ''missing.cfg'' = Inl (StdException ''no such file'')"
    by (simp add: demo_world_def)
  from main_exit_codes [where rt = text_runtime and w = demo_world and prog = "''md-client''"
      and args = "[]"]
  have 1: "main text_runtime demo_world ''md-client'' []
     = (Exited 2, process_start\<lparr>cerr := ''usage: md-client client.cfg'' @ [newline]\<rparr>)" by simp
  from main_exit_codes [where rt = text_runtime and w = demo_world and cfg = "''client.cfg''"
      and st = st and others = "[]" and prog = "''md-client''"] run
  have 2: "main text_runtime demo_world ''md-client'' [''client.cfg''] = (Exited 0, st)" by blast
  from main_exit_codes [where rt = text_runtime and w = demo_world and cfg = "''missing.cfg''"
      and e = "StdException ''no such file''" and others = "[]" and prog = "''md-client''"] missing
  have 3: "main text_runtime demo_world ''md-client'' [''missing.cfg'']
       = (Exited 1, process_start\<lparr>cerr := ''fatal: '' @ what text_runtime (StdException ''no such file'') @ [newline]\<rparr>)"
    by blast
  from main_exit_codes [where rt = text_runtime and w = abort_world and cfg = "''client.cfg''"
      and st = st' and others = "[]" and prog = "''md-client''"] bad
  have 4: "main text_runtime abort_world ''md-client'' [''client.cfg''] = (Aborted, st')" by blast
  from 1 2 3 4 c c' show ?thesis by (simp add: text_runtime_def)
qed

end
